theory Spec2Isabelle
  imports Complex_Main
begin

section \<open>Data model of the KPI entry service\<close>

text \<open>
  A JavaScript number is a double. The model keeps the value of a finite double as a
  rational and rounds the result of an addition, a multiplication and a division of the
  source to the nearest double (section Numbers). The infinities are outside the model.
  Where a computation of the source can produce \<open>NaN\<close> the result type is
  \<open>rat option\<close> and \<open>None\<close> stands for \<open>NaN\<close>.

  A submitted value is \<open>number | string | boolean\<close>; a rule's \<open>value\<close> is
  \<open>number | string\<close>.
\<close>

datatype jsval = Num rat | Str string | Bool bool

datatype ruleval = RNum rat | RStr string

datatype kpiType = Quantitative | Percentage | Binary | Qualitative | Score

text \<open>\<open>interface ScoringRule { min?, max?, value?, score }\<close>; an absent field is \<open>None\<close>.\<close>

record ScoringRule =
  rule_min :: "rat option"
  rule_max :: "rat option"
  rule_value :: "ruleval option"
  rule_score :: rat

text \<open>\<open>interface TemplateItem\<close>; \<open>description\<close> and \<open>kpiUnit\<close> are never read.\<close>

record TemplateItem =
  item_name :: string
  maxMarks :: rat
  item_kpiType :: kpiType
  isDynamic :: bool
  scoringRules :: "ScoringRule list"

text \<open>
  A value as a caller submits it (\<open>score\<close>, \<open>comments\<close> and \<open>isByPassed\<close> may be
  absent), and a value as \<open>validateAndCalculateScores\<close> returns and the store keeps it.
\<close>

record SubmittedValue =
  sv_name :: string
  sv_value :: jsval
  sv_score :: "rat option"
  sv_comments :: "string option"
  sv_isByPassed :: "bool option"

record EntryValue =
  ev_name :: string
  ev_value :: jsval
  ev_score :: rat
  ev_comments :: "string option"
  ev_isByPassed :: "bool option"

datatype entryStatus = Initiated | Generated

text \<open>Instants are milliseconds since the epoch, as \<open>Date.prototype.getTime\<close> gives them.\<close>

type_synonym instant = int

record KpiEntry =
  entry_id :: string
  kpiTemplateId :: string
  entry_values :: "EntryValue list"
  entry_totalScore :: rat
  status :: entryStatus
  createdBy :: string
  createdFor :: string
  createdAt :: instant
  updatedAt :: instant

text \<open>
  \<open>KpiEntryCreate\<close> as a request body carries it: \<open>status\<close> has a schema default and
  may be absent. \<open>Partial<KpiEntryCreate>\<close> is the update payload of the static
  \<open>updateKpiEntry\<close>. \<open>KpiEntryFields\<close> is \<open>KpiEntryCreate\<close> as its type declares it
  (every field present, every value scored), the argument of the instance method
  \<open>updateKpiEntry\<close>.
\<close>

record KpiEntryCreate =
  kc_kpiTemplateId :: string
  kc_values :: "SubmittedValue list"
  kc_status :: "entryStatus option"
  kc_createdFor :: string

record KpiEntryPartial =
  kp_kpiTemplateId :: "string option"
  kp_values :: "SubmittedValue list option"
  kp_status :: "entryStatus option"
  kp_createdFor :: "string option"

record KpiEntryFields =
  kf_kpiTemplateId :: string
  kf_values :: "EntryValue list"
  kf_status :: entryStatus
  kf_createdFor :: string

record KpiTemplate =
  tpl_id :: string
  tpl_name :: string
  tpl_role :: string
  frequency :: string
  template :: "TemplateItem list"

record Member =
  userId :: string
  member_role :: string
  departmentSlug :: string

text \<open>
  The three collections the service reads and writes, in the order the store returns
  documents.
\<close>

record db =
  kpiEntries :: "KpiEntry list"
  kpiTemplates :: "KpiTemplate list"
  members :: "Member list"

text \<open>Every \<open>throw\<close> of the service, by the title of the error it throws.\<close>

datatype error =
    TemplateOrMemberNotFound
  | TemplateNotForRole
  | PeriodConflict
  | ReportAlreadyGenerated
  | MissingRequiredValues "string list"
  | MissingBypassScore string
  | InvalidValueType string
  | EntryNotFound
  | EntryLocked
  | TemplateNotFound
  | UpdateWindowClosed
  | InvalidFrequency string
  | SchemaValidationError string

section \<open>Numbers\<close>

text \<open>
  Rounding to the nearest double, ties to the even significand: a double has 53
  significant bits, so a non-zero \<open>x\<close> with \<open>2 ^ e \<le> |x| < 2 ^ (e + 1)\<close> is rounded to a
  multiple of \<open>2 ^ (e - 52)\<close>, and of \<open>2 ^ (- 1074)\<close>, the smallest positive double,
  when that is larger. \<open>bitLength n\<close> is the number of binary digits of \<open>n\<close>. Overflow
  to an infinity, from \<open>2 ^ 1024\<close> on, is not modelled.
\<close>

fun bitLength :: "nat \<Rightarrow> nat" where
  "bitLength n = (if n = 0 then 0 else Suc (bitLength (n div 2)))"

declare bitLength.simps [simp del]

definition pow2 :: "int \<Rightarrow> rat" where
  "pow2 e = (if 0 \<le> e then 2 ^ nat e else 1 / 2 ^ nat (- e))"

text \<open>For \<open>0 < x\<close>, the \<open>e\<close> with \<open>2 ^ e \<le> x < 2 ^ (e + 1)\<close>.\<close>

definition binaryExponent :: "rat \<Rightarrow> int" where
  "binaryExponent x =
     (if 1 \<le> x then int (bitLength (nat \<lfloor>x\<rfloor>)) - 1
      else - int (bitLength (nat (\<lceil>1 / x\<rceil> - 1))))"

definition roundHalfEven :: "rat \<Rightarrow> int" where
  "roundHalfEven y =
     (let f = \<lfloor>y\<rfloor>; d = y - of_int f
      in if d < 1 / 2 then f else if 1 / 2 < d then f + 1 else if even f then f else f + 1)"

definition roundToDouble :: "rat \<Rightarrow> rat" where
  "roundToDouble x =
     (if x = 0 then 0
      else (let a = \<bar>x\<bar>; ulp = pow2 (max (binaryExponent a - 52) (- 1074))
            in sgn x * of_int (roundHalfEven (a / ulp)) * ulp))"

text \<open>The operators \<open>+\<close>, \<open>*\<close> and \<open>/\<close> of the source on finite numbers, the divisor not 0.\<close>

definition numAdd :: "rat \<Rightarrow> rat \<Rightarrow> rat" where
  "numAdd x y = roundToDouble (x + y)"

definition numMul :: "rat \<Rightarrow> rat \<Rightarrow> rat" where
  "numMul x y = roundToDouble (x * y)"

definition numDiv :: "rat \<Rightarrow> rat \<Rightarrow> rat" where
  "numDiv x y = roundToDouble (x / y)"

text \<open>\<open>Math.round\<close>: the nearest integer, a half going up.\<close>

definition mathRound :: "rat \<Rightarrow> int" where
  "mathRound x = \<lfloor>x + 1 / 2\<rfloor>"

text \<open>\<open>String.prototype.trim\<close>, over the ASCII white space and line terminators.\<close>

definition isWhiteSpace :: "char \<Rightarrow> bool" where
  "isWhiteSpace c =
     (c \<in> set [CHR '' '', CHR 0x09, CHR 0x0A, CHR 0x0B, CHR 0x0C, CHR 0x0D])"

definition trim :: "string \<Rightarrow> string" where
  "trim s = rev (dropWhile isWhiteSpace (rev (dropWhile isWhiteSpace s)))"

text \<open>
  The coercion of a string to a number (\<open>StringToNumber\<close>): white space around the
  literal is dropped; the empty string is 0; a literal is \<open>0x\<close>, \<open>0o\<close> or \<open>0b\<close> with
  digits of that base, or an optional sign and a decimal literal (digits, an optional
  fraction, an optional exponent); the value is rounded to a double; anything else is
  \<open>NaN\<close>. The literal \<open>Infinity\<close> and a literal that rounds to \<open>2 ^ 1024\<close> or more are
  an infinity, which the model does not have: they are \<open>None\<close> here.
\<close>

definition digitTable :: "(char \<times> nat) list" where
  "digitTable =
     zip ''0123456789abcdef'' [0..<16] @ zip ''ABCDEF'' [10..<16]"

text \<open>The value of a string of digits of a base, read from the left with \<open>acc\<close> before it.\<close>

fun digitsValue :: "nat \<Rightarrow> nat \<Rightarrow> string \<Rightarrow> nat option" where
  "digitsValue base acc [] = Some acc"
| "digitsValue base acc (c # cs) =
     (case map_of digitTable c of
        None \<Rightarrow> None
      | Some d \<Rightarrow> if d < base then digitsValue base (acc * base + d) cs else None)"

definition digitsOf :: "nat \<Rightarrow> string \<Rightarrow> nat option" where
  "digitsOf base s = (if s = [] then None else digitsValue base 0 s)"

text \<open>The part before the first character with \<open>P\<close>, and the part after it if there is one.\<close>

definition splitAtFirst :: "(char \<Rightarrow> bool) \<Rightarrow> string \<Rightarrow> string \<times> string option" where
  "splitAtFirst P s =
     (takeWhile (\<lambda>c. \<not> P c) s,
      case dropWhile (\<lambda>c. \<not> P c) s of [] \<Rightarrow> None | c # r \<Rightarrow> Some r)"

definition exponentPart :: "string \<Rightarrow> int option" where
  "exponentPart s =
     (if s \<noteq> [] \<and> hd s = CHR ''+'' then map_option int (digitsOf 10 (tl s))
      else if s \<noteq> [] \<and> hd s = CHR ''-'' then map_option (\<lambda>n. - int n) (digitsOf 10 (tl s))
      else map_option int (digitsOf 10 s))"

definition pow10 :: "int \<Rightarrow> rat" where
  "pow10 e = (if 0 \<le> e then 10 ^ nat e else 1 / 10 ^ nat (- e))"

definition unsignedDecimal :: "string \<Rightarrow> rat option" where
  "unsignedDecimal s =
     (let mantissa = fst (splitAtFirst (\<lambda>c. c = CHR ''e'' \<or> c = CHR ''E'') s);
          ex = snd (splitAtFirst (\<lambda>c. c = CHR ''e'' \<or> c = CHR ''E'') s);
          ip = fst (splitAtFirst (\<lambda>c. c = CHR ''.'') mantissa);
          fp = (case snd (splitAtFirst (\<lambda>c. c = CHR ''.'') mantissa) of
                  None \<Rightarrow> [] | Some f \<Rightarrow> f)
      in if ip = [] \<and> fp = [] then None
         else (case (digitsValue 10 0 ip, digitsValue 10 0 fp,
                     case ex of None \<Rightarrow> Some 0 | Some e \<Rightarrow> exponentPart e) of
                 (Some i, Some f, Some e) \<Rightarrow>
                   Some ((of_nat i + of_nat f / 10 ^ length fp) * pow10 e)
               | _ \<Rightarrow> None))"

definition numericLiteral :: "string \<Rightarrow> rat option" where
  "numericLiteral s =
     (if take 2 s = ''0x'' \<or> take 2 s = ''0X'' then map_option of_nat (digitsOf 16 (drop 2 s))
      else if take 2 s = ''0o'' \<or> take 2 s = ''0O'' then map_option of_nat (digitsOf 8 (drop 2 s))
      else if take 2 s = ''0b'' \<or> take 2 s = ''0B'' then map_option of_nat (digitsOf 2 (drop 2 s))
      else if s \<noteq> [] \<and> hd s = CHR ''+'' then unsignedDecimal (tl s)
      else if s \<noteq> [] \<and> hd s = CHR ''-'' then map_option uminus (unsignedDecimal (tl s))
      else unsignedDecimal s)"

definition stringToNumber :: "string \<Rightarrow> rat option" where
  "stringToNumber s =
     (if trim s = [] then Some 0
      else (case numericLiteral (trim s) of
              None \<Rightarrow> None
            | Some v \<Rightarrow>
                if roundToDouble v = 0 \<or> binaryExponent \<bar>roundToDouble v\<bar> < 1024
                then Some (roundToDouble v) else None))"

section \<open>ScoreEvaluator: \<open>KpiEntryService.calculateScore\<close>\<close>

text \<open>
  \<open>rule.value as number\<close> is a compile-time cast only: in \<open>b.value - a.value\<close> and in
  \<open>value >= rule.value\<close> a number is itself and a string is coerced to a number at run
  time, \<open>'90'\<close> to 90 and \<open>'abc'\<close> to \<open>NaN\<close>. An absent value does not reach the
  coercion, the filter dropping it.
\<close>

fun asNumber :: "ruleval option \<Rightarrow> rat option" where
  "asNumber (Some (RNum x)) = Some x"
| "asNumber (Some (RStr s)) = stringToNumber s"
| "asNumber None = None"

text \<open>
  The comparator \<open>(a, b) => (b.value as number) - (a.value as number)\<close>. A \<open>NaN\<close>
  result is read as \<open>+0\<close> by \<open>Array.prototype.sort\<close>. The sort reads the sign of
  the difference only, and rounding a difference of two doubles keeps its sign, so the
  difference is left exact here.
\<close>

definition byValueDesc :: "ScoringRule \<Rightarrow> ScoringRule \<Rightarrow> rat" where
  "byValueDesc a b =
     (case (asNumber (rule_value b), asNumber (rule_value a)) of
        (Some x, Some y) \<Rightarrow> x - y
      | _ \<Rightarrow> 0)"

text \<open>
  \<open>Array.prototype.sort\<close> with a comparator is stable: \<open>a\<close> stays in front of a
  later \<open>b\<close> unless the comparator is positive on \<open>(a, b)\<close>. It is modelled as a stable
  insertion sort; on the copy \<open>[...scoringRules]\<close> the source list is left as it is.
\<close>

fun insertSorted :: "('a \<Rightarrow> 'a \<Rightarrow> rat) \<Rightarrow> 'a \<Rightarrow> 'a list \<Rightarrow> 'a list" where
  "insertSorted cmp x [] = [x]"
| "insertSorted cmp x (y # ys) =
     (if cmp x y \<le> 0 then x # y # ys else y # insertSorted cmp x ys)"

definition sortJS :: "('a \<Rightarrow> 'a \<Rightarrow> rat) \<Rightarrow> 'a list \<Rightarrow> 'a list" where
  "sortJS cmp xs = foldr (insertSorted cmp) xs []"

text \<open>\<open>value >= (rule.value as number)\<close>; false on \<open>NaN\<close>.\<close>

definition geNumber :: "rat \<Rightarrow> rat option \<Rightarrow> bool" where
  "geNumber v t = (case t of Some x \<Rightarrow> x \<le> v | None \<Rightarrow> False)"

text \<open>The loop \<open>for (const rule of sortedRules)\<close> of the percentage branch, then \<open>return 0\<close>.\<close>

fun percentageLoop :: "rat \<Rightarrow> ScoringRule list \<Rightarrow> rat" where
  "percentageLoop v [] = 0"
| "percentageLoop v (r # rs) =
     (if geNumber v (asNumber (rule_value r)) then rule_score r else percentageLoop v rs)"

text \<open>\<open>value === rule.value\<close>: strict equality, no coercion between types.\<close>

fun strictEq :: "jsval \<Rightarrow> ruleval \<Rightarrow> bool" where
  "strictEq (Num x) (RNum y) = (x = y)"
| "strictEq (Str s) (RStr t) = (s = t)"
| "strictEq _ _ = False"

text \<open>
  The loop \<open>for (const rule of scoringRules)\<close> of the other types: a rule with both
  \<open>min\<close> and \<open>max\<close> is a range rule and is never tried as an exact-value rule.
\<close>

fun ruleLoop :: "jsval \<Rightarrow> ScoringRule list \<Rightarrow> rat" where
  "ruleLoop v [] = 0"
| "ruleLoop v (r # rs) =
     (case (rule_min r, rule_max r) of
        (Some lo, Some hi) \<Rightarrow>
          (case v of
             Num x \<Rightarrow> if lo \<le> x \<and> x \<le> hi then rule_score r else ruleLoop v rs
           | _ \<Rightarrow> ruleLoop v rs)
      | _ \<Rightarrow>
          (case rule_value r of
             Some rv \<Rightarrow> if strictEq v rv then rule_score r else ruleLoop v rs
           | None \<Rightarrow> ruleLoop v rs))"

text \<open>
  \<open>calculateScore(value, scoringRules, kpiType?, kpiName?)\<close>. \<open>kpiName\<close> is used for
  logging only and is left out; \<open>kpiType\<close> absent is \<open>None\<close>.
\<close>

definition calculateScore :: "jsval \<Rightarrow> ScoringRule list \<Rightarrow> kpiType option \<Rightarrow> rat" where
  "calculateScore v rules kt =
     (case (kt, v) of
        (Some Score, Num x) \<Rightarrow> x
      | (Some Percentage, Num x) \<Rightarrow>
          percentageLoop x
            (sortJS byValueDesc (filter (\<lambda>rule. rule_value rule \<noteq> None) rules))
      | _ \<Rightarrow> ruleLoop v rules)"

section \<open>Dates\<close>

text \<open>
  \<open>Date\<close> is modelled after the ECMAScript definitions (\<open>Day\<close>, \<open>DayFromYear\<close>,
  \<open>YearFromTime\<close>, \<open>MonthFromTime\<close>, \<open>DateFromTime\<close>, \<open>WeekDay\<close>, \<open>MakeDay\<close>,
  \<open>MakeDate\<close>). The local time zone is taken to have a constant offset, so an instant is
  counted in local milliseconds and daylight saving is outside the model; the range limit
  of \<open>Date\<close> is not modelled.
\<close>

definition msPerDay :: int where
  "msPerDay = 86400000"

definition Day :: "instant \<Rightarrow> int" where
  "Day t = t div msPerDay"

definition DayFromYear :: "int \<Rightarrow> int" where
  "DayFromYear y =
     365 * (y - 1970) + (y - 1969) div 4 - (y - 1901) div 100 + (y - 1601) div 400"

text \<open>
  \<open>YearFromTime\<close> is the largest year whose first day is not after the given day. It is
  computed from an estimate that is off by at most one (\<open>YearFromDay_spec\<close> below).
\<close>

definition YearFromDay :: "int \<Rightarrow> int" where
  "YearFromDay d =
     (let y = 1970 + (400 * d) div 146097
      in if d < DayFromYear y then y - 1
         else if DayFromYear (y + 1) \<le> d then y + 1
         else y)"

definition getFullYear :: "instant \<Rightarrow> int" where
  "getFullYear t = YearFromDay (Day t)"

definition leapDays :: "int \<Rightarrow> int" where
  "leapDays y = (if y mod 4 = 0 \<and> (y mod 100 \<noteq> 0 \<or> y mod 400 = 0) then 1 else 0)"

text \<open>The day within the year on which each month starts; \<open>l\<close> is 1 in a leap year.\<close>

definition monthStarts :: "int \<Rightarrow> int list" where
  "monthStarts l =
     [0, 31, 59 + l, 90 + l, 120 + l, 151 + l, 181 + l, 212 + l, 243 + l, 273 + l,
      304 + l, 334 + l]"

definition DayWithinYear :: "instant \<Rightarrow> int" where
  "DayWithinYear t = Day t - DayFromYear (getFullYear t)"

definition getMonth :: "instant \<Rightarrow> int" where
  "getMonth t =
     int (length (filter (\<lambda>s. s \<le> DayWithinYear t) (monthStarts (leapDays (getFullYear t))))) - 1"

definition getDate :: "instant \<Rightarrow> int" where
  "getDate t =
     DayWithinYear t - monthStarts (leapDays (getFullYear t)) ! nat (getMonth t) + 1"

text \<open>\<open>getDay\<close>: 0 is Sunday; 1 January 1970 was a Thursday.\<close>

definition getDay :: "instant \<Rightarrow> int" where
  "getDay t = (Day t + 4) mod 7"

definition MakeDay :: "int \<Rightarrow> int \<Rightarrow> int \<Rightarrow> int" where
  "MakeDay year month date =
     (let ym = year + month div 12; mn = month mod 12
      in DayFromYear ym + monthStarts (leapDays ym) ! nat mn + date - 1)"

definition MakeDate :: "int \<Rightarrow> int \<Rightarrow> instant" where
  "MakeDate day time = day * msPerDay + time"

text \<open>
  \<open>new Date(year, month, date)\<close>: local midnight of that day; a year from 0 to 99 is
  read as 1900 + year.
\<close>

definition newDate :: "int \<Rightarrow> int \<Rightarrow> int \<Rightarrow> instant" where
  "newDate year month date =
     MakeDate (MakeDay (if 0 \<le> year \<and> year \<le> 99 then 1900 + year else year) month date) 0"

definition setHours :: "instant \<Rightarrow> int \<Rightarrow> int \<Rightarrow> int \<Rightarrow> int \<Rightarrow> instant" where
  "setHours t h m s ms = MakeDate (Day t) (h * 3600000 + m * 60000 + s * 1000 + ms)"

text \<open>
  \<open>toDateString\<close> prints the weekday, the month, the day of the month and the year; two
  such strings are equal exactly when these four components are, and the model keeps the
  components.
\<close>

definition toDateString :: "instant \<Rightarrow> int \<times> int \<times> int \<times> int" where
  "toDateString t = (getDay t, getMonth t, getDate t, getFullYear t)"

section \<open>PeriodCalculator and FrequencyGuard\<close>

text \<open>The \<open>switch (frequency)\<close> of \<open>checkFrequencyValidation\<close>: \<open>(startDate, endDate)\<close>.\<close>

definition periodWindow :: "string \<Rightarrow> instant \<Rightarrow> error + (instant \<times> instant)" where
  "periodWindow freq currentDate =
     (if freq = ''daily'' then
        (let startDate =
               newDate (getFullYear currentDate) (getMonth currentDate) (getDate currentDate)
         in Inr (startDate, startDate + 24 * 60 * 60 * 1000))
      else if freq = ''weekly'' then
        (let dayOfWeek = getDay currentDate;
             daysToSubtract = (if dayOfWeek = 0 then 6 else dayOfWeek - 1);
             startDate = setHours (currentDate - daysToSubtract * 24 * 60 * 60 * 1000) 0 0 0 0
         in Inr (startDate, startDate + 7 * 24 * 60 * 60 * 1000))
      else if freq = ''monthly'' then
        Inr (newDate (getFullYear currentDate) (getMonth currentDate) 1,
             setHours (newDate (getFullYear currentDate) (getMonth currentDate + 1) 0)
               23 59 59 999)
      else if freq = ''quarterly'' then
        (let quarter = getMonth currentDate div 3
         in Inr (newDate (getFullYear currentDate) (quarter * 3) 1,
                 setHours (newDate (getFullYear currentDate) ((quarter + 1) * 3) 0)
                   23 59 59 999))
      else if freq = ''yearly'' then
        Inr (newDate (getFullYear currentDate) 0 1,
             setHours (newDate (getFullYear currentDate) 11 31) 23 59 59 999)
      else Inl (InvalidFrequency freq))"

text \<open>
  \<open>checkFrequencyValidation\<close>: true when \<open>findOne\<close> finds an entry of the pair with
  \<open>startDate \<le> createdAt \<le> endDate\<close> (\<open>$gte\<close>, \<open>$lte\<close>).
\<close>

definition checkFrequencyValidation ::
  "db \<Rightarrow> string \<Rightarrow> string \<Rightarrow> string \<Rightarrow> instant \<Rightarrow> error + bool" where
  "checkFrequencyValidation st tid member freq currentDate =
     (case periodWindow freq currentDate of
        Inl e \<Rightarrow> Inl e
      | Inr (startDate, endDate) \<Rightarrow>
          Inr (find (\<lambda>e. kpiTemplateId e = tid \<and> createdFor e = member
                         \<and> startDate \<le> createdAt e \<and> createdAt e \<le> endDate)
                 (kpiEntries st) \<noteq> None))"

text \<open>
  \<open>getWeekNumber\<close>: \<open>pastDaysOfYear\<close> is a fraction of days. The quotients differ from
  an integer by 0 or by more than the rounding of a double, so the ceiling of the exact
  value is the one computed.
\<close>

definition getWeekNumber :: "instant \<Rightarrow> int" where
  "getWeekNumber date =
     (let firstDayOfYear = newDate (getFullYear date) 0 1;
          pastDaysOfYear = (of_int (date - firstDayOfYear) :: rat) / 86400000
      in \<lceil>(pastDaysOfYear + of_int (getDay firstDayOfYear) + 1) / 7\<rceil>)"

text \<open>
  The \<open>switch (template.frequency)\<close> of the static \<open>updateKpiEntry\<close>; it has no default
  branch, so any other frequency leaves \<open>isWithinUpdatePeriod\<close> false.
\<close>

definition isWithinUpdatePeriod :: "string \<Rightarrow> instant \<Rightarrow> instant \<Rightarrow> bool" where
  "isWithinUpdatePeriod freq entryDate currentDate =
     (if freq = ''daily'' then toDateString entryDate = toDateString currentDate
      else if freq = ''weekly'' then
        getWeekNumber entryDate = getWeekNumber currentDate
        \<and> getFullYear entryDate = getFullYear currentDate
      else if freq = ''monthly'' then
        getMonth entryDate = getMonth currentDate
        \<and> getFullYear entryDate = getFullYear currentDate
      else if freq = ''quarterly'' then
        getMonth entryDate div 3 = getMonth currentDate div 3
        \<and> getFullYear entryDate = getFullYear currentDate
      else if freq = ''yearly'' then getFullYear entryDate = getFullYear currentDate
      else False)"

section \<open>EntryValidator\<close>

text \<open>
  \<open>validateRequiredValues\<close>: throws when a template item with \<open>isDynamic\<close> false is not
  named by any submitted value; the warning about supplied dynamic items only logs.
\<close>

definition validateRequiredValues :: "SubmittedValue list \<Rightarrow> TemplateItem list \<Rightarrow> error + unit" where
  "validateRequiredValues values templateItems =
     (let providedKpiNames = map sv_name values;
          missingNonDynamicKpis =
            map item_name
              (filter (\<lambda>item. \<not> isDynamic item \<and> item_name item \<notin> set providedKpiNames)
                 templateItems)
      in if length missingNonDynamicKpis > 0 then Inl (MissingRequiredValues missingNonDynamicKpis)
         else Inr ())"

definition isNumber :: "jsval \<Rightarrow> bool" where
  "isNumber v = (case v of Num x \<Rightarrow> True | _ \<Rightarrow> False)"

definition isBoolean :: "jsval \<Rightarrow> bool" where
  "isBoolean v = (case v of Bool b \<Rightarrow> True | _ \<Rightarrow> False)"

text \<open>The body of the loop of \<open>validateAndCalculateScores\<close> once the template item is found.\<close>

definition scoreValue :: "TemplateItem \<Rightarrow> SubmittedValue \<Rightarrow> error + rat" where
  "scoreValue templateItem v =
     (if sv_isByPassed v = Some True then
        (case sv_score v of
           None \<Rightarrow> Inl (MissingBypassScore (sv_name v))
         | Some s \<Rightarrow> Inr s)
      else if (item_kpiType templateItem = Quantitative \<or> item_kpiType templateItem = Percentage
               \<or> item_kpiType templateItem = Score) \<and> \<not> isNumber (sv_value v)
        then Inl (InvalidValueType (sv_name v))
      else if item_kpiType templateItem = Binary \<and> \<not> isBoolean (sv_value v)
        then Inl (InvalidValueType (sv_name v))
      else Inr (calculateScore (sv_value v) (scoringRules templateItem)
                  (Some (item_kpiType templateItem))))"

text \<open>\<open>{ ...value, score }\<close>\<close>

definition withScore :: "SubmittedValue \<Rightarrow> rat \<Rightarrow> EntryValue" where
  "withScore v s =
     \<lparr>ev_name = sv_name v, ev_value = sv_value v, ev_score = s,
      ev_comments = sv_comments v, ev_isByPassed = sv_isByPassed v\<rparr>"

text \<open>
  The loop \<open>for (const value of values)\<close>: a value naming no template item is skipped
  (\<open>continue\<close>); the first error ends the loop.
\<close>

fun validateLoop :: "TemplateItem list \<Rightarrow> SubmittedValue list \<Rightarrow> error + EntryValue list" where
  "validateLoop templateItems [] = Inr []"
| "validateLoop templateItems (v # vs) =
     (case find (\<lambda>item. item_name item = sv_name v) templateItems of
        None \<Rightarrow> validateLoop templateItems vs
      | Some templateItem \<Rightarrow>
          (case scoreValue templateItem v of
             Inl e \<Rightarrow> Inl e
           | Inr s \<Rightarrow>
               (case validateLoop templateItems vs of
                  Inl e \<Rightarrow> Inl e
                | Inr validatedValues \<Rightarrow> Inr (withScore v s # validatedValues))))"

definition validateAndCalculateScores ::
  "SubmittedValue list \<Rightarrow> TemplateItem list \<Rightarrow> error + EntryValue list" where
  "validateAndCalculateScores values templateItems =
     (case validateRequiredValues values templateItems of
        Inl e \<Rightarrow> Inl e
      | Inr u \<Rightarrow> validateLoop templateItems values)"

text \<open>\<open>validatedValues.reduce((sum, value) => sum + value.score, 0)\<close>\<close>

definition totalScoreOf :: "EntryValue list \<Rightarrow> rat" where
  "totalScoreOf validatedValues = foldl (\<lambda>sum v. numAdd sum (ev_score v)) 0 validatedValues"

section \<open>Creating and updating entries\<close>

text \<open>
  \<open>KpiTemplateService.getKpiTemplate\<close> is \<open>findById\<close>. \<open>MemberService.getMember\<close>
  returns \<open>{ ...member, user }\<close>, an object even when no member is found, so the test
  \<open>!member\<close> of the callers never holds and only \<open>member.role\<close> can be absent.
  Identifiers are taken to be well-formed object ids.
\<close>

definition getKpiTemplate :: "db \<Rightarrow> string \<Rightarrow> KpiTemplate option" where
  "getKpiTemplate st tid = find (\<lambda>t. tpl_id t = tid) (kpiTemplates st)"

definition getMemberRole :: "db \<Rightarrow> string \<Rightarrow> string option" where
  "getMemberRole st uid = map_option member_role (find (\<lambda>m. userId m = uid) (members st))"

text \<open>
  The static \<open>createKpiEntry(kpiEntry, userId)\<close>. \<open>now\<close> is the clock (\<open>new Date()\<close>, also
  the timestamps the store sets) and \<open>newId\<close> the identifier the store gives the new
  document. The result is the store with the new entry.
\<close>

definition createKpiEntry ::
  "db \<Rightarrow> instant \<Rightarrow> string \<Rightarrow> KpiEntryCreate \<Rightarrow> string \<Rightarrow> error + db" where
  "createKpiEntry st now newId kpiEntry uid =
     (case getKpiTemplate st (kc_kpiTemplateId kpiEntry) of
        None \<Rightarrow> Inl TemplateOrMemberNotFound
      | Some tpl \<Rightarrow>
          if Some (tpl_role tpl) \<noteq> getMemberRole st (kc_createdFor kpiEntry)
          then Inl TemplateNotForRole
          else
            (case checkFrequencyValidation st (kc_kpiTemplateId kpiEntry)
                    (kc_createdFor kpiEntry) (frequency tpl) now of
               Inl e \<Rightarrow> Inl e
             | Inr hasExistingEntry \<Rightarrow>
                 if hasExistingEntry then Inl PeriodConflict
                 else if find (\<lambda>e. kpiTemplateId e = kc_kpiTemplateId kpiEntry
                                    \<and> createdFor e = kc_createdFor kpiEntry
                                    \<and> status e = Generated) (kpiEntries st) \<noteq> None
                 then Inl ReportAlreadyGenerated
                 else
                   (case validateAndCalculateScores (kc_values kpiEntry) (template tpl) of
                      Inl e \<Rightarrow> Inl e
                    | Inr validatedValues \<Rightarrow>
                        Inr (st\<lparr>kpiEntries := kpiEntries st @
                             [\<lparr>entry_id = newId,
                               kpiTemplateId = kc_kpiTemplateId kpiEntry,
                               entry_values = validatedValues,
                               entry_totalScore = totalScoreOf validatedValues,
                               status = (case kc_status kpiEntry of
                                           None \<Rightarrow> Initiated | Some s \<Rightarrow> s),
                               createdBy = uid,
                               createdFor = kc_createdFor kpiEntry,
                               createdAt = now,
                               updatedAt = now\<rparr>]\<rparr>))))"

text \<open>\<open>findByIdAndUpdate\<close>: the first document with the identifier is replaced.\<close>

fun updateById :: "string \<Rightarrow> (KpiEntry \<Rightarrow> KpiEntry) \<Rightarrow> KpiEntry list \<Rightarrow> KpiEntry list" where
  "updateById eid f [] = []"
| "updateById eid f (e # es) = (if entry_id e = eid then f e # es else e # updateById eid f es)"

text \<open>
  The static \<open>updateKpiEntry(entryId, updateData, userId)\<close>. The update document is
  \<open>{ ...updateData, values: validatedValues, totalScore }\<close>: the fields of \<open>updateData\<close>
  that are present are written as they are.
\<close>

definition updateKpiEntry ::
  "db \<Rightarrow> instant \<Rightarrow> string \<Rightarrow> KpiEntryPartial \<Rightarrow> string \<Rightarrow> error + db" where
  "updateKpiEntry st now entryId updateData uid =
     (case find (\<lambda>e. entry_id e = entryId) (kpiEntries st) of
        None \<Rightarrow> Inl EntryNotFound
      | Some existingEntry \<Rightarrow>
          if status existingEntry = Generated then Inl EntryLocked
          else
            (case getKpiTemplate st (kpiTemplateId existingEntry) of
               None \<Rightarrow> Inl TemplateNotFound
             | Some tpl \<Rightarrow>
                 if \<not> isWithinUpdatePeriod (frequency tpl) (createdAt existingEntry) now
                 then Inl UpdateWindowClosed
                 else
                   (case (case kp_values updateData of
                            None \<Rightarrow> Inr (entry_values existingEntry)
                          | Some vs \<Rightarrow> validateAndCalculateScores vs (template tpl)) of
                      Inl e \<Rightarrow> Inl e
                    | Inr validatedValues \<Rightarrow>
                        Inr (st\<lparr>kpiEntries :=
                              updateById entryId
                                (\<lambda>e. e\<lparr>kpiTemplateId :=
                                          (case kp_kpiTemplateId updateData of
                                             None \<Rightarrow> kpiTemplateId e | Some t \<Rightarrow> t),
                                        status :=
                                          (case kp_status updateData of
                                             None \<Rightarrow> status e | Some s \<Rightarrow> s),
                                        createdFor :=
                                          (case kp_createdFor updateData of
                                             None \<Rightarrow> createdFor e | Some c \<Rightarrow> c),
                                        entry_values := validatedValues,
                                        entry_totalScore := totalScoreOf validatedValues,
                                        updatedAt := now\<rparr>)
                                (kpiEntries st)\<rparr>))))"

text \<open>
  The instance method \<open>updateKpiEntry(id, kpiEntry)\<close>: \<open>findByIdAndUpdate(id, kpiEntry)\<close>
  and nothing else. It is named \<open>updateKpiEntryById\<close> here, the static method having the
  name.
\<close>

definition updateKpiEntryById :: "db \<Rightarrow> instant \<Rightarrow> string \<Rightarrow> KpiEntryFields \<Rightarrow> db" where
  "updateKpiEntryById st now eid kpiEntry =
     st\<lparr>kpiEntries :=
          updateById eid
            (\<lambda>e. e\<lparr>kpiTemplateId := kf_kpiTemplateId kpiEntry,
                    entry_values := kf_values kpiEntry,
                    status := kf_status kpiEntry,
                    createdFor := kf_createdFor kpiEntry,
                    updatedAt := now\<rparr>)
            (kpiEntries st)\<rparr>"

text \<open>
  \<open>createSystemGeneratedEntry(kpiTemplateId, userId, systemValues)\<close>. The document handed
  to \<open>KpiEntryModel.create\<close> has a \<open>userId\<close> and no \<open>createdFor\<close>, which the schema
  requires, so the store rejects it.
\<close>

record SystemValue =
  sys_name :: string
  sys_value :: jsval
  sys_source :: string

definition systemEntryValues :: "SystemValue list \<Rightarrow> SubmittedValue list" where
  "systemEntryValues systemValues =
     map (\<lambda>sv. \<lparr>sv_name = sys_name sv, sv_value = sys_value sv, sv_score = None,
                 sv_comments = Some (''System generated from '' @ sys_source sv),
                 sv_isByPassed = Some True\<rparr>) systemValues"

definition createSystemGeneratedEntry ::
  "db \<Rightarrow> string \<Rightarrow> string \<Rightarrow> SystemValue list \<Rightarrow> error + db" where
  "createSystemGeneratedEntry st tid uid systemValues =
     (case getKpiTemplate st tid of
        None \<Rightarrow> Inl TemplateNotFound
      | Some tpl \<Rightarrow>
          (case validateAndCalculateScores (systemEntryValues systemValues) (template tpl) of
             Inl e \<Rightarrow> Inl e
           | Inr validatedValues \<Rightarrow> Inl (SchemaValidationError ''createdFor'')))"

section \<open>Member roster\<close>

text \<open>\<open>if (department && department.trim())\<close> and \<open>if (role && role.trim())\<close>\<close>

definition exactCondition :: "(Member \<Rightarrow> string) \<Rightarrow> string option \<Rightarrow> (Member \<Rightarrow> bool) list" where
  "exactCondition field arg =
     (case arg of
        None \<Rightarrow> []
      | Some a \<Rightarrow> if a \<noteq> [] \<and> trim a \<noteq> [] then [\<lambda>m. field m = trim a] else [])"

text \<open>
  \<open>MemberService.getMembers({ page, limit, department, role })\<close> as the entry service
  calls it, with neither \<open>name\<close> nor \<open>email\<close>: the query is the conjunction of the
  conditions present (every member when there is none), then \<open>skip\<close> and \<open>limit\<close>, where
  a limit of 0 means no limit. The result is \<open>docs\<close>; the joined user record and the
  page counters are not read by the callers modelled here.
\<close>

definition getMembers :: "db \<Rightarrow> nat \<Rightarrow> nat \<Rightarrow> string option \<Rightarrow> string option \<Rightarrow> Member list" where
  "getMembers st page limit department role =
     (let memberConditions = exactCondition departmentSlug department @ exactCondition member_role role;
          skip = (page - 1) * limit;
          found = drop skip (filter (\<lambda>m. list_all (\<lambda>c. c m) memberConditions) (members st))
      in if limit = 0 then found else take limit found)"

section \<open>RankingEngine\<close>

text \<open>
  A row of a ranking. \<open>memberName\<close> and \<open>memberEmail\<close> come from the joined user record
  and are left out. \<open>rk_status\<close> is the entry's status, \<open>None\<close> for \<open>'no-entry'\<close>.
\<close>

record Ranking =
  memberId :: string
  memberDepartment :: string
  memberRole :: string
  ranking :: nat
  rk_totalScore :: rat
  hasEntry :: bool
  entryId :: "string option"
  rk_status :: "entryStatus option"

text \<open>
  \<open>entriesMap\<close>: \<open>kpiEntries.forEach((entry) => entriesMap.set(entry.createdFor, entry))\<close>;
  a later entry of the same member replaces an earlier one.
\<close>

definition entriesMapOf :: "KpiEntry list \<Rightarrow> (string \<rightharpoonup> KpiEntry)" where
  "entriesMapOf es = foldl (\<lambda>m entry. m(createdFor entry \<mapsto> entry)) Map.empty es"

text \<open>The row pushed for one member.\<close>

definition rankingRow :: "(string \<rightharpoonup> KpiEntry) \<Rightarrow> Member \<Rightarrow> Ranking" where
  "rankingRow entriesMap member =
     (let entry = entriesMap (userId member)
      in \<lparr>memberId = userId member,
          memberDepartment = departmentSlug member,
          memberRole = member_role member,
          ranking = 0,
          rk_totalScore = (case entry of Some e \<Rightarrow> entry_totalScore e | None \<Rightarrow> 0),
          hasEntry = (entry \<noteq> None),
          entryId = map_option entry_id entry,
          rk_status = map_option status entry\<rparr>)"

text \<open>
  The comparator \<open>(a, b) => b.totalScore - a.totalScore\<close>; the sort reads its sign only,
  which rounding keeps.
\<close>

definition byTotalScoreDesc :: "Ranking \<Rightarrow> Ranking \<Rightarrow> rat" where
  "byTotalScoreDesc a b = rk_totalScore b - rk_totalScore a"

text \<open>
  The loop \<open>rankings.forEach((ranking, index) => ...)\<close> with its two variables
  \<open>currentRank\<close> and \<open>currentScore\<close>; \<open>currentScore\<close> starts as
  \<open>rankings[0]?.totalScore\<close>, absent on an empty list.
\<close>

fun rankLoop :: "nat \<Rightarrow> nat \<Rightarrow> rat option \<Rightarrow> Ranking list \<Rightarrow> Ranking list" where
  "rankLoop index currentRank currentScore [] = []"
| "rankLoop index currentRank currentScore (r # rs) =
     (if Some (rk_totalScore r) \<noteq> currentScore
      then r\<lparr>ranking := index + 1\<rparr> # rankLoop (index + 1) (index + 1) (Some (rk_totalScore r)) rs
      else r\<lparr>ranking := currentRank\<rparr> # rankLoop (index + 1) currentRank currentScore rs)"

definition assignRankings :: "Ranking list \<Rightarrow> Ranking list" where
  "assignRankings rankings =
     rankLoop 0 1 (case rankings of [] \<Rightarrow> None | r # rs \<Rightarrow> Some (rk_totalScore r)) rankings"

text \<open>Sorting, then ranking: the ranked rows of one list of members.\<close>

definition rankMembers :: "(string \<rightharpoonup> KpiEntry) \<Rightarrow> Member list \<Rightarrow> Ranking list" where
  "rankMembers entriesMap ms =
     assignRankings (sortJS byTotalScoreDesc (map (rankingRow entriesMap) ms))"

text \<open>
  The statistics of a list of ranked rows. \<open>completionRate\<close> is
  \<open>Math.round((membersWithEntries / totalMembers) * 100)\<close>, the quotient and the product
  each rounded to a double; on an empty list this is \<open>0 / 0\<close>, which is \<open>NaN\<close>, and
  \<open>Math.round(NaN)\<close> is \<open>NaN\<close>: \<open>None\<close>. The reported average is
  \<open>Math.round(averageScore * 100) / 100\<close>.
\<close>

record Statistics =
  totalMembers :: nat
  membersWithEntries :: nat
  membersWithoutEntries :: nat
  averageScore :: rat
  highestScore :: rat
  lowestScore :: rat
  completionRate :: "rat option"

definition sumScores :: "Ranking list \<Rightarrow> rat" where
  "sumScores rs = foldl (\<lambda>sum r. numAdd sum (rk_totalScore r)) 0 rs"

definition averageOf :: "Ranking list \<Rightarrow> rat" where
  "averageOf rankings =
     (let withEntries = filter hasEntry rankings
      in if length withEntries > 0
         then numDiv (sumScores withEntries) (of_nat (length withEntries))
         else 0)"

definition roundedAverageOf :: "Ranking list \<Rightarrow> rat" where
  "roundedAverageOf rankings =
     numDiv (of_int (mathRound (numMul (averageOf rankings) 100))) 100"

definition completionRateOf :: "Ranking list \<Rightarrow> rat option" where
  "completionRateOf rankings =
     (if length rankings = 0 then None
      else Some (of_int (mathRound
             (numMul (numDiv (of_nat (length (filter hasEntry rankings)))
                             (of_nat (length rankings))) 100))))"

definition statisticsOf :: "Ranking list \<Rightarrow> Statistics" where
  "statisticsOf rankings =
     \<lparr>totalMembers = length rankings,
      membersWithEntries = length (filter hasEntry rankings),
      membersWithoutEntries = length rankings - length (filter hasEntry rankings),
      averageScore = roundedAverageOf rankings,
      highestScore = (case rankings of [] \<Rightarrow> 0 | r # rs \<Rightarrow> rk_totalScore r),
      lowestScore =
        (case rev (filter hasEntry rankings) of [] \<Rightarrow> 0 | r # rs \<Rightarrow> rk_totalScore r),
      completionRate = completionRateOf rankings\<rparr>"

text \<open>
  \<open>getKpiEntriesStatisticsByDepartmentAndRole\<close>: \<open>Number(page) || 1\<close> and
  \<open>Number(limit) || 10\<close> on the parsed arguments; the entries of the template for the
  members found, whatever their status. The \<open>pagination\<close> object is left out.
\<close>

definition getKpiEntriesStatisticsByDepartmentAndRole ::
  "db \<Rightarrow> nat \<Rightarrow> nat \<Rightarrow> string \<Rightarrow> string \<Rightarrow> string \<Rightarrow> Ranking list \<times> Statistics" where
  "getKpiEntriesStatisticsByDepartmentAndRole st page limit tid department role =
     (let pageNum = (if page = 0 then 1 else page);
          limitNum = (if limit = 0 then 10 else limit);
          docs = getMembers st pageNum limitNum (Some department) (Some role);
          found = filter (\<lambda>e. kpiTemplateId e = tid \<and> createdFor e \<in> set (map userId docs))
                    (kpiEntries st);
          rankings = rankMembers (entriesMapOf found) docs
      in (rankings, statisticsOf rankings))"

section \<open>ReportGenerator\<close>

text \<open>
  \<open>membersByRole\<close>: a \<open>Map\<close> from role to the members of that role, the roles in the
  order of their first member, the members of a role in roster order.
\<close>

fun addMember :: "Member \<Rightarrow> (string \<times> Member list) list \<Rightarrow> (string \<times> Member list) list" where
  "addMember m [] = [(member_role m, [m])]"
| "addMember m ((r, ms) # groups) =
     (if r = member_role m then (r, ms @ [m]) # groups else (r, ms) # addMember m groups)"

definition membersByRoleOf :: "Member list \<Rightarrow> (string \<times> Member list) list" where
  "membersByRoleOf docs = foldl (\<lambda>groups m. addMember m groups) [] docs"

record RoleReport =
  rr_role :: string
  rr_rankings :: "Ranking list"
  rr_statistics :: Statistics

record DepartmentStatistics =
  ds_totalMembers :: nat
  ds_membersWithEntries :: nat
  ds_membersWithoutEntries :: nat
  ds_averageScore :: rat
  ds_completionRate :: "rat option"
  ds_totalRoles :: nat

record DepartmentReport =
  dr_department :: string
  dr_templateId :: string
  dr_templateName :: string
  dr_generatedAt :: instant
  dr_generatedBy :: string
  roleReports :: "RoleReport list"
  departmentStatistics :: DepartmentStatistics
  entriesUpdated :: nat

text \<open>
  What one role contributes to \<open>entriesToUpdate\<close>: for each member, in order, the
  identifier of the member's entry when there is one and it is not generated.
\<close>

definition entriesToUpdateOf :: "(string \<rightharpoonup> KpiEntry) \<Rightarrow> Member list \<Rightarrow> string list" where
  "entriesToUpdateOf entriesMap ms =
     concat (map (\<lambda>member. case entriesMap (userId member) of
                              None \<Rightarrow> []
                            | Some entry \<Rightarrow> if status entry \<noteq> Generated then [entry_id entry] else [])
               ms)"

definition roleReportOf :: "(string \<rightharpoonup> KpiEntry) \<Rightarrow> string \<times> Member list \<Rightarrow> RoleReport" where
  "roleReportOf entriesMap roleGroup =
     (let rankings = rankMembers entriesMap (snd roleGroup)
      in \<lparr>rr_role = fst roleGroup, rr_rankings = rankings, rr_statistics = statisticsOf rankings\<rparr>)"

text \<open>\<open>updateMany({ _id: { $in: entriesToUpdate } }, { status: 'generated', updatedAt })\<close>\<close>

definition markGenerated :: "string list \<Rightarrow> instant \<Rightarrow> KpiEntry list \<Rightarrow> KpiEntry list" where
  "markGenerated ids now es =
     map (\<lambda>e. if entry_id e \<in> set ids then e\<lparr>status := Generated, updatedAt := now\<rparr> else e) es"

text \<open>
  \<open>generateReportByDepartment(department, templateId, generatedBy)\<close>: the store after the
  call and the report. The roster is page 1 of the department's members with limit 1000.
\<close>

definition generateReportByDepartment ::
  "db \<Rightarrow> instant \<Rightarrow> string \<Rightarrow> string \<Rightarrow> string \<Rightarrow> error + (db \<times> DepartmentReport)" where
  "generateReportByDepartment st now department tid generatedBy =
     (case getKpiTemplate st tid of
        None \<Rightarrow> Inl TemplateNotFound
      | Some tpl \<Rightarrow>
          (let allMembers = getMembers st 1 1000 (Some department) None;
               found = filter (\<lambda>e. kpiTemplateId e = tid
                                    \<and> createdFor e \<in> set (map userId allMembers)
                                    \<and> status e \<noteq> Generated) (kpiEntries st);
               membersByRole = membersByRoleOf allMembers;
               entriesMap = entriesMapOf found;
               reports = map (roleReportOf entriesMap) membersByRole;
               entriesToUpdate = concat (map (\<lambda>roleGroup. entriesToUpdateOf entriesMap (snd roleGroup))
                                           membersByRole);
               st' = (if length entriesToUpdate > 0
                      then st\<lparr>kpiEntries := markGenerated entriesToUpdate now (kpiEntries st)\<rparr>
                      else st);
               allRankings = concat (map rr_rankings reports)
           in Inr (st',
                \<lparr>dr_department = department,
                 dr_templateId = tid,
                 dr_templateName = tpl_name tpl,
                 dr_generatedAt = now,
                 dr_generatedBy = generatedBy,
                 roleReports = reports,
                 departmentStatistics =
                   \<lparr>ds_totalMembers = length allRankings,
                    ds_membersWithEntries = length (filter hasEntry allRankings),
                    ds_membersWithoutEntries =
                      length allRankings - length (filter hasEntry allRankings),
                    ds_averageScore = roundedAverageOf allRankings,
                    ds_completionRate = completionRateOf allRankings,
                    ds_totalRoles = length reports\<rparr>,
                 entriesUpdated = length entriesToUpdate\<rparr>)))"

section \<open>Statements of the specification\<close>

text \<open>
  Percentage scoring as the specification words it: the rules sorted by descending
  \<open>value\<close>; the score of the first one whose \<open>value\<close> is at most the submitted value,
  and 0 when there is none. Only a rule whose \<open>value\<close> is a number, or a string that
  stands for one, has a \<open>value\<close> to compare: \<open>threshold\<close> reads it.
\<close>

definition threshold :: "ScoringRule \<Rightarrow> rat" where
  "threshold r = (case asNumber (rule_value r) of Some t \<Rightarrow> t | None \<Rightarrow> 0)"

definition numericThreshold :: "ScoringRule \<Rightarrow> bool" where
  "numericThreshold r = (case rule_value r of Some (RStr s) \<Rightarrow> False | _ \<Rightarrow> True)"

definition percentageScoreSpec :: "rat \<Rightarrow> ScoringRule list \<Rightarrow> rat" where
  "percentageScoreSpec v rules =
     (case find (\<lambda>r. threshold r \<le> v)
             (sort_key (\<lambda>r. - threshold r)
                (filter (\<lambda>r. asNumber (rule_value r) \<noteq> None) rules)) of
        None \<Rightarrow> 0
      | Some r \<Rightarrow> rule_score r)"

text \<open>An exact-value rule \<open>{ value: t, score: s }\<close>, \<open>t\<close> a number or a string.\<close>

definition valueRule :: "rat \<Rightarrow> rat \<Rightarrow> ScoringRule" where
  "valueRule t s = \<lparr>rule_min = None, rule_max = None, rule_value = Some (RNum t), rule_score = s\<rparr>"

definition stringRule :: "string \<Rightarrow> rat \<Rightarrow> ScoringRule" where
  "stringRule t s = \<lparr>rule_min = None, rule_max = None, rule_value = Some (RStr t), rule_score = s\<rparr>"

text \<open>
  Competition ranking of a list of rows: the scores descend, and the rank of a row is the
  1-based position of the first row with its score, which is one more than the number of
  rows with a strictly higher score.
\<close>

definition competitionRanked :: "Ranking list \<Rightarrow> bool" where
  "competitionRanked rows =
     (sorted_wrt (\<ge>) (map rk_totalScore rows)
      \<and> list_all
           (\<lambda>r. ranking r =
                  Suc (length (takeWhile (\<lambda>r'. rk_totalScore r' \<noteq> rk_totalScore r) rows))
                \<and> ranking r =
                  Suc (length (filter (\<lambda>r'. rk_totalScore r < rk_totalScore r') rows)))
           rows)"

text \<open>A ranking row that carries a total score, for the examples.\<close>

definition scoreRow :: "rat \<Rightarrow> Ranking" where
  "scoreRow s =
     \<lparr>memberId = [], memberDepartment = [], memberRole = [], ranking = 0,
      rk_totalScore = s, hasEntry = True, entryId = None, rk_status = Some Initiated\<rparr>"

section \<open>Example data\<close>

text \<open>
  A template \<open>T1\<close> for the role \<open>sales\<close>, a member \<open>u1\<close> of that role in the department
  \<open>north\<close>, and entries of that member for that template. The instants used with them:
  1704456000000 is Friday 5 January 2024, 12:00; 1704499200000 is Saturday 6 January
  2024, 00:00:00.000; 1704542400000 is that Saturday, 12:00.
\<close>

definition exTemplate :: "string \<Rightarrow> TemplateItem list \<Rightarrow> KpiTemplate" where
  "exTemplate freq items =
     \<lparr>tpl_id = ''T1'', tpl_name = ''Sales KPI'', tpl_role = ''sales'', frequency = freq,
      template = items\<rparr>"

definition exMember :: "string \<Rightarrow> Member" where
  "exMember uid = \<lparr>userId = uid, member_role = ''sales'', departmentSlug = ''north''\<rparr>"

definition exEntry :: "string \<Rightarrow> string \<Rightarrow> entryStatus \<Rightarrow> instant \<Rightarrow> KpiEntry" where
  "exEntry eid uid s t =
     \<lparr>entry_id = eid, kpiTemplateId = ''T1'', entry_values = [], entry_totalScore = 10,
      status = s, createdBy = ''admin'', createdFor = uid, createdAt = t, updatedAt = t\<rparr>"

definition exStore :: "string \<Rightarrow> TemplateItem list \<Rightarrow> KpiEntry list \<Rightarrow> db" where
  "exStore freq items es =
     \<lparr>kpiEntries = es, kpiTemplates = [exTemplate freq items], members = [exMember ''u1'']\<rparr>"

definition exCreate :: KpiEntryCreate where
  "exCreate =
     \<lparr>kc_kpiTemplateId = ''T1'', kc_values = [], kc_status = None, kc_createdFor = ''u1''\<rparr>"

definition exItem :: "string \<Rightarrow> bool \<Rightarrow> TemplateItem" where
  "exItem n dyn =
     \<lparr>item_name = n, maxMarks = 10, item_kpiType = Quantitative, isDynamic = dyn,
      scoringRules = []\<rparr>"

definition exSystemValue :: "string \<Rightarrow> SystemValue" where
  "exSystemValue n = \<lparr>sys_name = n, sys_value = Num 1, sys_source = ''crm''\<rparr>"

text \<open>
  The names of the template items that are not dynamic and that no system value names:
  what \<open>validateRequiredValues\<close> reports for the values of a system-generated entry.
\<close>

definition missingRequired :: "TemplateItem list \<Rightarrow> SystemValue list \<Rightarrow> string list" where
  "missingRequired items svs =
     map item_name (filter (\<lambda>item. \<not> isDynamic item \<and> item_name item \<notin> sys_name ` set svs) items)"

definition exPartial :: KpiEntryPartial where
  "exPartial =
     \<lparr>kp_kpiTemplateId = None, kp_values = None, kp_status = None, kp_createdFor = None\<rparr>"

definition exFields :: KpiEntryFields where
  "exFields =
     \<lparr>kf_kpiTemplateId = ''T1'',
      kf_values = [\<lparr>ev_name = ''A'', ev_value = Num 1, ev_score = 99,
                     ev_comments = None, ev_isByPassed = None\<rparr>],
      kf_status = Initiated, kf_createdFor = ''u1''\<rparr>"

text \<open>The statistics of an empty list of rows, as the code computes them.\<close>

definition emptyStatistics :: Statistics where
  "emptyStatistics =
     \<lparr>totalMembers = 0, membersWithEntries = 0, membersWithoutEntries = 0, averageScore = 0,
      highestScore = 0, lowestScore = 0, completionRate = None\<rparr>"

text \<open>
  Names for the parts of \<open>generateReportByDepartment\<close>: all rows of a report; the roster
  it loads; the entries it loads; the identifiers it marks as generated.
\<close>

definition reportRows :: "DepartmentReport \<Rightarrow> Ranking list" where
  "reportRows rep = concat (map rr_rankings (roleReports rep))"

definition roster :: "db \<Rightarrow> string \<Rightarrow> Member list" where
  "roster st department = getMembers st 1 1000 (Some department) None"

definition openEntries :: "db \<Rightarrow> string \<Rightarrow> string \<Rightarrow> KpiEntry list" where
  "openEntries st department tid =
     filter (\<lambda>e. kpiTemplateId e = tid \<and> createdFor e \<in> set (map userId (roster st department))
                  \<and> status e \<noteq> Generated) (kpiEntries st)"

definition lockedIds :: "db \<Rightarrow> string \<Rightarrow> string \<Rightarrow> string list" where
  "lockedIds st department tid =
     concat (map (\<lambda>roleGroup. entriesToUpdateOf (entriesMapOf (openEntries st department tid))
                                 (snd roleGroup))
               (membersByRoleOf (roster st department)))"

text \<open>
  Members \<open>u\<close> with the identifiers \<open>""\<close>, \<open>"x"\<close>, \<open>"xx"\<close>, ..., all of the
  department \<open>north\<close>, and a store with 1001 of them; the fields of a row the examples
  look at.
\<close>

definition manyMembers :: "nat \<Rightarrow> Member list" where
  "manyMembers n = map (\<lambda>i. exMember (replicate i CHR ''x'')) [0..<n]"

definition bigStore :: db where
  "bigStore =
     \<lparr>kpiEntries = [], kpiTemplates = [exTemplate ''daily'' []], members = manyMembers 1001\<rparr>"

definition rowSummary :: "Ranking \<Rightarrow> string \<times> bool \<times> string option" where
  "rowSummary r = (memberId r, hasEntry r, entryId r)"

text \<open>
  A team of four members of the role \<open>sales\<close> in the department \<open>north\<close> with one entry
  each, of total score 80, 90, 70 and 90; the fields of a ranked row the example looks at.
\<close>

definition exScored :: "string \<Rightarrow> rat \<Rightarrow> KpiEntry" where
  "exScored uid sc = (exEntry (''e-'' @ uid) uid Initiated 1704456000000)\<lparr>entry_totalScore := sc\<rparr>"

definition exTeamStore :: db where
  "exTeamStore =
     \<lparr>kpiEntries = [exScored ''a'' 80, exScored ''b'' 90, exScored ''c'' 70, exScored ''d'' 90],
      kpiTemplates = [exTemplate ''daily'' []],
      members = map exMember [''a'', ''b'', ''c'', ''d'']\<rparr>"

definition rankSummary :: "Ranking \<Rightarrow> string \<times> rat \<times> nat" where
  "rankSummary r = (memberId r, rk_totalScore r, ranking r)"

section \<open>Percentage scoring\<close>

definition hasNumber :: "ScoringRule \<Rightarrow> bool" where
  "hasNumber r = (\<exists>t. rule_value r = Some (RNum t))"

lemma asNumber_hasNumber: "hasNumber r \<Longrightarrow> asNumber (rule_value r) = Some (threshold r)"
  by (auto simp: hasNumber_def threshold_def)

lemma byValueDesc_numeric:
  "hasNumber a \<Longrightarrow> hasNumber b \<Longrightarrow> byValueDesc a b = threshold b - threshold a"
  by (simp add: byValueDesc_def asNumber_hasNumber)

text \<open>On numeric thresholds the comparator sort is the stable sort by descending threshold.\<close>

lemma insertSorted_insort:
  "hasNumber x \<Longrightarrow> \<forall>y\<in>set ys. hasNumber y \<Longrightarrow>
   insertSorted byValueDesc x ys = insort_key (\<lambda>r. - threshold r) x ys"
  by (induction ys) (auto simp: byValueDesc_numeric)

lemma sortJS_sort_key:
  "\<forall>y\<in>set xs. hasNumber y \<Longrightarrow> sortJS byValueDesc xs = sort_key (\<lambda>r. - threshold r) xs"
proof (induction xs)
  case Nil
  then show ?case by (simp add: sortJS_def)
next
  case (Cons x xs)
  then have "sortJS byValueDesc xs = sort_key (\<lambda>r. - threshold r) xs" by simp
  moreover have "\<forall>y\<in>set (sort_key (\<lambda>r. - threshold r) xs). hasNumber y"
    using Cons.prems by simp
  ultimately show ?case
    using Cons.prems by (simp add: sortJS_def insertSorted_insort)
qed

lemma percentageLoop_find:
  "\<forall>y\<in>set rs. hasNumber y \<Longrightarrow>
   percentageLoop v rs =
     (case find (\<lambda>r. threshold r \<le> v) rs of None \<Rightarrow> 0 | Some r \<Rightarrow> rule_score r)"
  by (induction rs) (auto simp: geNumber_def asNumber_hasNumber)

lemma filter_hasNumber:
  "\<forall>r\<in>set rules. numericThreshold r \<Longrightarrow>
   \<forall>y\<in>set (filter (\<lambda>r. rule_value r \<noteq> None) rules). hasNumber y"
proof (intro ballI)
  fix y
  assume a: "\<forall>r\<in>set rules. numericThreshold r"
    and y: "y \<in> set (filter (\<lambda>r. rule_value r \<noteq> None) rules)"
  from y obtain rv where rv: "rule_value y = Some rv" by auto
  from a y have "numericThreshold y" by simp
  with rv show "hasNumber y"
    by (cases rv) (simp_all add: numericThreshold_def hasNumber_def)
qed

lemma filter_numeric:
  assumes "\<forall>r\<in>set rules. numericThreshold r"
  shows "filter (\<lambda>r. asNumber (rule_value r) \<noteq> None) rules
         = filter (\<lambda>r. rule_value r \<noteq> None) rules"
proof (rule filter_cong[OF refl])
  fix r
  assume "r \<in> set rules"
  then have n: "numericThreshold r" using assms by simp
  show "(asNumber (rule_value r) \<noteq> None) = (rule_value r \<noteq> None)"
  proof (cases "rule_value r")
    case None
    then show ?thesis by simp
  next
    case (Some rv)
    then show ?thesis using n by (cases rv) (simp_all add: numericThreshold_def)
  qed
qed

lemma calculateScore_percentage:
  assumes "\<forall>r\<in>set rules. numericThreshold r"
  shows "calculateScore (Num v) rules (Some Percentage) = percentageScoreSpec v rules"
proof -
  have f: "\<forall>y\<in>set (filter (\<lambda>r. rule_value r \<noteq> None) rules). hasNumber y"
    using assms by (rule filter_hasNumber)
  have s: "\<forall>y\<in>set (sort_key (\<lambda>r. - threshold r) (filter (\<lambda>r. rule_value r \<noteq> None) rules)).
             hasNumber y"
    using f by simp
  show ?thesis
    unfolding calculateScore_def percentageScoreSpec_def filter_numeric[OF assms]
    using sortJS_sort_key[OF f] percentageLoop_find[OF s] by simp
qed

text \<open>The coercion at some strings, and a rule whose threshold is the string \<open>'90'\<close>.\<close>

lemma stringToNumber_examples:
  "stringToNumber ''90'' = Some 90"
  "stringToNumber '' 9e1 '' = Some 90"
  "stringToNumber ''0x5A'' = Some 90"
  "stringToNumber ''-1.5'' = Some (- 3 / 2)"
  "stringToNumber ''.5'' = Some (1 / 2)"
  "stringToNumber ''5.'' = Some 5"
  "stringToNumber [] = Some 0"
  "stringToNumber ''abc'' = None"
  "stringToNumber ''1_0'' = None"
  "stringToNumber ''-0x5A'' = None"
  "stringToNumber ''95.00000000000000001'' = Some 95"
  by code_simp+

lemma calculateScore_string_threshold:
  "calculateScore (Num 95) [stringRule ''90'' 5] (Some Percentage) = 5"
  by (simp add: calculateScore_def sortJS_def stringRule_def geNumber_def
      stringToNumber_examples)

lemma calculateScore_examples:
  "calculateScore (Num 80) [valueRule 90 5, valueRule 75 3] (Some Percentage) = 3"
  "calculateScore (Num 95) [valueRule 90 5, valueRule 75 3] (Some Percentage) = 5"
  "calculateScore (Num 50) [valueRule 90 5, valueRule 75 3] (Some Percentage) = 0"
  by (simp_all add: calculateScore_def sortJS_def valueRule_def byValueDesc_def geNumber_def)

text \<open>
  C1, as the claim states it, fails: with a rule whose \<open>value\<close> is the string \<open>'abc'\<close>
  between the rules for 75 and 90, the comparator is \<open>NaN\<close> on that rule, the sort leaves
  the list as it is, and the input 95 scores 3, the score of the rule for 75, where the
  rule with the highest \<open>value\<close> that is at most 95 is the rule for 90, with score 5.
\<close>

theorem C1_counterexample:
  "calculateScore (Num 95) [valueRule 75 3, stringRule ''abc'' 9, valueRule 90 5]
      (Some Percentage) = 3
   \<and> percentageScoreSpec 95 [valueRule 75 3, stringRule ''abc'' 9, valueRule 90 5] = 5"
  by (simp add: calculateScore_def sortJS_def valueRule_def stringRule_def byValueDesc_def
      geNumber_def percentageScoreSpec_def threshold_def stringToNumber_examples)

text \<open>
  C1, amended. With \<open>kpiType = percentage\<close> and a numeric submitted value, for every list
  of rules whose thresholds are numbers, \<open>calculateScore\<close> returns the score of the first
  rule, after sorting by descending \<open>value\<close>, whose \<open>value\<close> is at most the submitted
  value, and 0 when no rule qualifies. For the rules
  \<open>[{value: 90, score: 5}, {value: 75, score: 3}]\<close> the inputs 80, 95 and 50 score 3, 5
  and 0.
\<close>

theorem C1_percentage_threshold_score:
  "((\<forall>r\<in>set rules. numericThreshold r) \<longrightarrow>
      calculateScore (Num v) rules (Some Percentage) = percentageScoreSpec v rules)
   \<and> calculateScore (Num 80) [valueRule 90 5, valueRule 75 3] (Some Percentage) = 3
   \<and> calculateScore (Num 95) [valueRule 90 5, valueRule 75 3] (Some Percentage) = 5
   \<and> calculateScore (Num 50) [valueRule 90 5, valueRule 75 3] (Some Percentage) = 0"
  using calculateScore_percentage[of rules v] calculateScore_examples by blast

theorem C1_percentage_threshold_score_witness:
  "numericThreshold (valueRule 75 3) \<and> numericThreshold (valueRule 90 5)
   \<and> numericThreshold (valueRule 90 4)
   \<and> calculateScore (Num 92) [valueRule 75 3, valueRule 90 5, valueRule 90 4] (Some Percentage)
       = percentageScoreSpec 92 [valueRule 75 3, valueRule 90 5, valueRule 90 4]
   \<and> percentageScoreSpec 92 [valueRule 75 3, valueRule 90 5, valueRule 90 4] = 5"
proof -
  have h: "numericThreshold (valueRule 75 3)" "numericThreshold (valueRule 90 5)"
    "numericThreshold (valueRule 90 4)"
    by (simp_all add: numericThreshold_def valueRule_def)
  have "calculateScore (Num 92) [valueRule 75 3, valueRule 90 5, valueRule 90 4] (Some Percentage)
       = percentageScoreSpec 92 [valueRule 75 3, valueRule 90 5, valueRule 90 4]"
    using C1_percentage_threshold_score[of "[valueRule 75 3, valueRule 90 5, valueRule 90 4]" 92] h
    by simp
  moreover have "percentageScoreSpec 92 [valueRule 75 3, valueRule 90 5, valueRule 90 4] = 5"
    by (simp add: percentageScoreSpec_def threshold_def valueRule_def)
  ultimately show ?thesis using h by blast
qed

section \<open>Competition ranking\<close>

lemma rankLoop_length: "length (rankLoop i cr cs rs) = length rs"
  by (induction rs arbitrary: i cr cs) auto

lemma rankLoop_nth:
  "sorted_wrt (\<ge>) (map rk_totalScore rs) \<Longrightarrow> \<forall>r\<in>set rs. rk_totalScore r \<le> c \<Longrightarrow>
   k < length rs \<Longrightarrow>
   rankLoop i cr (Some c) rs ! k =
     (rs ! k)\<lparr>ranking :=
        (if rk_totalScore (rs ! k) = c then cr
         else i + 1 + length (takeWhile (\<lambda>r. rk_totalScore r \<noteq> rk_totalScore (rs ! k)) rs))\<rparr>"
proof (induction rs arbitrary: i cr c k)
  case Nil
  then show ?case by simp
next
  case (Cons r rs)
  show ?case
  proof (cases k)
    case 0
    then show ?thesis by simp
  next
    case (Suc j)
    have j: "j < length rs" using Cons.prems(3) Suc by simp
    have srt: "sorted_wrt (\<ge>) (map rk_totalScore rs)" using Cons.prems(1) by simp
    have le_r: "\<forall>x\<in>set rs. rk_totalScore x \<le> rk_totalScore r" using Cons.prems(1) by auto
    have jr: "rk_totalScore (rs ! j) \<le> rk_totalScore r" using le_r j by simp
    show ?thesis
    proof (cases "rk_totalScore r = c")
      case True
      have "rankLoop (i + 1) cr (Some c) rs ! j =
        (rs ! j)\<lparr>ranking :=
        (if rk_totalScore (rs ! j) = c then cr
         else (i + 1) + 1 + length (takeWhile (\<lambda>x. rk_totalScore x \<noteq> rk_totalScore (rs ! j)) rs))\<rparr>"
        using Cons.IH[OF srt _ j, of c "i + 1" cr] Cons.prems(2) by simp
      then show ?thesis using True Suc by auto
    next
      case False
      then have lt: "rk_totalScore r < c" using Cons.prems(2) by auto
      have "rankLoop (i + 1) (i + 1) (Some (rk_totalScore r)) rs ! j =
        (rs ! j)\<lparr>ranking :=
        (if rk_totalScore (rs ! j) = rk_totalScore r then i + 1
         else (i + 1) + 1 + length (takeWhile (\<lambda>x. rk_totalScore x \<noteq> rk_totalScore (rs ! j)) rs))\<rparr>"
        using Cons.IH[OF srt le_r j, of "i + 1" "i + 1"] by simp
      moreover have "rk_totalScore (rs ! j) \<noteq> c" using jr lt by simp
      ultimately show ?thesis using False Suc by auto
    qed
  qed
qed

lemma assignRankings_nth:
  assumes "sorted_wrt (\<ge>) (map rk_totalScore rs)" "k < length rs"
  shows "assignRankings rs ! k =
     (rs ! k)\<lparr>ranking := Suc (length (takeWhile (\<lambda>r. rk_totalScore r \<noteq> rk_totalScore (rs ! k)) rs))\<rparr>"
proof (cases rs)
  case Nil
  then show ?thesis using assms by simp
next
  case (Cons r rs')
  have le: "\<forall>x\<in>set rs. rk_totalScore x \<le> rk_totalScore r"
    using assms(1) Cons by auto
  have "assignRankings rs ! k = rankLoop 0 1 (Some (rk_totalScore r)) rs ! k"
    by (simp add: assignRankings_def Cons)
  also have "\<dots> = (rs ! k)\<lparr>ranking :=
        (if rk_totalScore (rs ! k) = rk_totalScore r then 1
         else 0 + 1 + length (takeWhile (\<lambda>x. rk_totalScore x \<noteq> rk_totalScore (rs ! k)) rs))\<rparr>"
    using rankLoop_nth[OF assms(1) le assms(2)] by simp
  also have "\<dots> = (rs ! k)\<lparr>ranking := Suc (length (takeWhile (\<lambda>r. rk_totalScore r \<noteq> rk_totalScore (rs ! k)) rs))\<rparr>"
    by (simp add: Cons)
  finally show ?thesis .
qed

lemma takeWhile_filter_sorted:
  "sorted_wrt (\<ge>) (map rk_totalScore rs) \<Longrightarrow> x \<in> rk_totalScore ` set rs \<Longrightarrow>
   length (takeWhile (\<lambda>r. rk_totalScore r \<noteq> x) rs) = length (filter (\<lambda>r. x < rk_totalScore r) rs)"
proof (induction rs)
  case Nil
  then show ?case by simp
next
  case (Cons r rs)
  show ?case
  proof (cases "rk_totalScore r = x")
    case True
    then have "\<forall>y\<in>set rs. \<not> x < rk_totalScore y" using Cons.prems(1) by auto
    then have "filter (\<lambda>r. x < rk_totalScore r) rs = []" by (simp add: filter_empty_conv)
    then show ?thesis using True by simp
  next
    case False
    then have xin: "x \<in> rk_totalScore ` set rs" using Cons.prems(2) by auto
    then have "x \<le> rk_totalScore r" using Cons.prems(1) by auto
    then have "x < rk_totalScore r" using False by simp
    then show ?thesis using False Cons.IH xin Cons.prems(1) by simp
  qed
qed

lemma set_insertSorted: "set (insertSorted cmp x ys) = insert x (set ys)"
  by (induction ys) auto

lemma sorted_insertSorted:
  "sorted_wrt (\<ge>) (map rk_totalScore ys) \<Longrightarrow>
   sorted_wrt (\<ge>) (map rk_totalScore (insertSorted byTotalScoreDesc x ys))"
  by (induction ys) (auto simp: set_insertSorted byTotalScoreDesc_def)

lemma sorted_sortJS: "sorted_wrt (\<ge>) (map rk_totalScore (sortJS byTotalScoreDesc rs))"
  unfolding sortJS_def by (induction rs) (auto simp: sorted_insertSorted)

section \<open>Creation after a report\<close>

lemmas date_defs = msPerDay_def Day_def DayFromYear_def YearFromDay_def getFullYear_def
  leapDays_def monthStarts_def DayWithinYear_def getMonth_def getDate_def getDay_def
  MakeDay_def MakeDate_def newDate_def setHours_def toDateString_def

lemmas example_defs = exTemplate_def exMember_def exEntry_def exStore_def exCreate_def
  exItem_def exSystemValue_def

lemma find_Some_ex: "(find P xs \<noteq> None) = (\<exists>x\<in>set xs. P x)"
  by (auto simp: find_None_iff)

text \<open>
  C3, as the claim states it, fails: with a generated entry of the pair made earlier on
  the same day and a daily template, creation fails with \<open>PeriodConflict\<close>, the period
  check coming first.
\<close>

theorem C3_counterexample:
  "status (exEntry ''e1'' ''u1'' Generated 1704445200000) = Generated
   \<and> createKpiEntry (exStore ''daily'' [] [exEntry ''e1'' ''u1'' Generated 1704445200000])
        1704456000000 ''e2'' exCreate ''admin'' = Inl PeriodConflict
   \<and> createKpiEntry (exStore ''daily'' [] [exEntry ''e1'' ''u1'' Generated 1704445200000])
        1704456000000 ''e2'' exCreate ''admin'' \<noteq> Inl ReportAlreadyGenerated"
  by (simp add: createKpiEntry_def example_defs getKpiTemplate_def getMemberRole_def
      checkFrequencyValidation_def periodWindow_def date_defs)

text \<open>
  C3, amended. When some entry of the pair is generated, \<open>createKpiEntry\<close> never creates
  an entry. When moreover the template exists and its role is the member's, it fails with
  \<open>PeriodConflict\<close> if an entry of the pair lies in the period window around now, and
  with \<open>ReportAlreadyGenerated\<close> otherwise, wherever the generated entry lies.
\<close>

theorem C3_generated_entry_blocks_creation:
  "(\<exists>e\<in>set (kpiEntries st). kpiTemplateId e = kc_kpiTemplateId req
        \<and> createdFor e = kc_createdFor req \<and> status e = Generated) \<longrightarrow>
     (\<forall>st'. createKpiEntry st now newId req uid \<noteq> Inr st')
     \<and> (\<forall>tpl. getKpiTemplate st (kc_kpiTemplateId req) = Some tpl
            \<and> Some (tpl_role tpl) = getMemberRole st (kc_createdFor req) \<longrightarrow>
          (checkFrequencyValidation st (kc_kpiTemplateId req) (kc_createdFor req)
               (frequency tpl) now = Inr True \<longrightarrow>
             createKpiEntry st now newId req uid = Inl PeriodConflict)
          \<and> (checkFrequencyValidation st (kc_kpiTemplateId req) (kc_createdFor req)
               (frequency tpl) now = Inr False \<longrightarrow>
             createKpiEntry st now newId req uid = Inl ReportAlreadyGenerated))"
proof
  assume "\<exists>e\<in>set (kpiEntries st). kpiTemplateId e = kc_kpiTemplateId req
        \<and> createdFor e = kc_createdFor req \<and> status e = Generated"
  then have g: "find (\<lambda>e. kpiTemplateId e = kc_kpiTemplateId req
        \<and> createdFor e = kc_createdFor req \<and> status e = Generated) (kpiEntries st) \<noteq> None"
    by (simp only: find_Some_ex)
  have never: "createKpiEntry st now newId req uid \<noteq> Inr st'" for st'
    using g unfolding createKpiEntry_def
    by (auto split: option.splits sum.splits)
  have conflict: "createKpiEntry st now newId req uid = Inl PeriodConflict"
    if "getKpiTemplate st (kc_kpiTemplateId req) = Some tpl"
      "Some (tpl_role tpl) = getMemberRole st (kc_createdFor req)"
      "checkFrequencyValidation st (kc_kpiTemplateId req) (kc_createdFor req)
               (frequency tpl) now = Inr True" for tpl
    using that unfolding createKpiEntry_def by simp
  have locked: "createKpiEntry st now newId req uid = Inl ReportAlreadyGenerated"
    if "getKpiTemplate st (kc_kpiTemplateId req) = Some tpl"
      "Some (tpl_role tpl) = getMemberRole st (kc_createdFor req)"
      "checkFrequencyValidation st (kc_kpiTemplateId req) (kc_createdFor req)
               (frequency tpl) now = Inr False" for tpl
    using that g unfolding createKpiEntry_def by simp
  show "(\<forall>st'. createKpiEntry st now newId req uid \<noteq> Inr st')
     \<and> (\<forall>tpl. getKpiTemplate st (kc_kpiTemplateId req) = Some tpl
            \<and> Some (tpl_role tpl) = getMemberRole st (kc_createdFor req) \<longrightarrow>
          (checkFrequencyValidation st (kc_kpiTemplateId req) (kc_createdFor req)
               (frequency tpl) now = Inr True \<longrightarrow>
             createKpiEntry st now newId req uid = Inl PeriodConflict)
          \<and> (checkFrequencyValidation st (kc_kpiTemplateId req) (kc_createdFor req)
               (frequency tpl) now = Inr False \<longrightarrow>
             createKpiEntry st now newId req uid = Inl ReportAlreadyGenerated))"
    using never conflict locked by blast
qed

text \<open>
  The generated entry of the witness was made a year before now, outside every window
  around now.
\<close>

theorem C3_generated_entry_blocks_creation_witness:
  "(\<exists>e\<in>set (kpiEntries (exStore ''daily'' [] [exEntry ''e1'' ''u1'' Generated 1672920000000])).
       kpiTemplateId e = kc_kpiTemplateId exCreate \<and> createdFor e = kc_createdFor exCreate
       \<and> status e = Generated)
   \<and> getKpiTemplate (exStore ''daily'' [] [exEntry ''e1'' ''u1'' Generated 1672920000000])
        (kc_kpiTemplateId exCreate) = Some (exTemplate ''daily'' [])
   \<and> Some (tpl_role (exTemplate ''daily'' [])) =
        getMemberRole (exStore ''daily'' [] [exEntry ''e1'' ''u1'' Generated 1672920000000])
          (kc_createdFor exCreate)
   \<and> checkFrequencyValidation (exStore ''daily'' [] [exEntry ''e1'' ''u1'' Generated 1672920000000])
        (kc_kpiTemplateId exCreate) (kc_createdFor exCreate) (frequency (exTemplate ''daily'' []))
        1704456000000 = Inr False
   \<and> createKpiEntry (exStore ''daily'' [] [exEntry ''e1'' ''u1'' Generated 1672920000000])
        1704456000000 ''e2'' exCreate ''admin'' = Inl ReportAlreadyGenerated"
proof -
  let ?st = "exStore ''daily'' [] [exEntry ''e1'' ''u1'' Generated 1672920000000]"
  have g: "\<exists>e\<in>set (kpiEntries ?st).
       kpiTemplateId e = kc_kpiTemplateId exCreate \<and> createdFor e = kc_createdFor exCreate
       \<and> status e = Generated"
    by (simp add: example_defs)
  have t: "getKpiTemplate ?st (kc_kpiTemplateId exCreate) = Some (exTemplate ''daily'' [])"
    by (simp add: getKpiTemplate_def example_defs)
  have r: "Some (tpl_role (exTemplate ''daily'' [])) = getMemberRole ?st (kc_createdFor exCreate)"
    by (simp add: getMemberRole_def example_defs)
  have c: "checkFrequencyValidation ?st (kc_kpiTemplateId exCreate) (kc_createdFor exCreate)
        (frequency (exTemplate ''daily'' [])) 1704456000000 = Inr False"
    by (simp add: checkFrequencyValidation_def periodWindow_def example_defs date_defs)
  have "createKpiEntry ?st 1704456000000 ''e2'' exCreate ''admin'' = Inl ReportAlreadyGenerated"
    using C3_generated_entry_blocks_creation[of ?st exCreate 1704456000000 "''e2''" "''admin''"]
      g t r c by blast
  then show ?thesis using g t r c by blast
qed


section \<open>System-generated entries\<close>

lemma validateLoop_system:
  "\<exists>sv\<in>set svs. find (\<lambda>item. item_name item = sys_name sv) items \<noteq> None \<Longrightarrow>
   \<exists>sv\<in>set svs. find (\<lambda>item. item_name item = sys_name sv) items \<noteq> None
      \<and> validateLoop items (systemEntryValues svs) = Inl (MissingBypassScore (sys_name sv))"
proof (induction svs)
  case Nil
  then show ?case by simp
next
  case (Cons sv svs)
  show ?case
  proof (cases "find (\<lambda>item. item_name item = sys_name sv) items")
    case None
    then have "\<exists>sv\<in>set svs. find (\<lambda>item. item_name item = sys_name sv) items \<noteq> None"
      using Cons.prems by auto
    from Cons.IH[OF this] obtain sv' where "sv' \<in> set svs"
      "find (\<lambda>item. item_name item = sys_name sv') items \<noteq> None"
      "validateLoop items (systemEntryValues svs) = Inl (MissingBypassScore (sys_name sv'))"
      by blast
    then show ?thesis using None by (auto simp: systemEntryValues_def)
  next
    case (Some item)
    then have "validateLoop items (systemEntryValues (sv # svs)) = Inl (MissingBypassScore (sys_name sv))"
      by (simp add: systemEntryValues_def scoreValue_def)
    then show ?thesis using Some by auto
  qed
qed

lemma validateRequiredValues_system:
  "validateRequiredValues (systemEntryValues svs) items =
     (if missingRequired items svs \<noteq> [] then Inl (MissingRequiredValues (missingRequired items svs))
      else Inr ())"
  by (simp add: validateRequiredValues_def missingRequired_def systemEntryValues_def image_image
      del: filter_False)

text \<open>
  C10, as the claim states it, fails: with a required item \<open>A\<close> that no system value
  names, a system value naming the item \<open>B\<close> is rejected with
  \<open>MissingRequiredValues\<close>, the check of required values coming first.
\<close>

theorem C10_counterexample:
  "sys_name (exSystemValue ''B'') = item_name (exItem ''B'' True)
   \<and> createSystemGeneratedEntry
        (exStore ''daily'' [exItem ''A'' False, exItem ''B'' True] []) ''T1'' ''u1''
        [exSystemValue ''B''] = Inl (MissingRequiredValues [''A''])
   \<and> createSystemGeneratedEntry
        (exStore ''daily'' [exItem ''A'' False, exItem ''B'' True] []) ''T1'' ''u1''
        [exSystemValue ''B''] \<noteq> Inl (MissingBypassScore ''B'')"
  by (simp add: createSystemGeneratedEntry_def getKpiTemplate_def example_defs
      validateAndCalculateScores_def validateRequiredValues_def systemEntryValues_def)

text \<open>
  C10, amended. When the template exists and some system value names one of its items,
  \<open>createSystemGeneratedEntry\<close> never creates an entry: it fails with
  \<open>MissingRequiredValues\<close> when an item that is not dynamic is named by no system
  value, and otherwise with \<open>MissingBypassScore\<close> for a system value that names an
  item.
\<close>

theorem C10_system_entry_never_created:
  "getKpiTemplate st tid = Some tpl
   \<and> (\<exists>sv\<in>set svs. \<exists>item\<in>set (template tpl). item_name item = sys_name sv) \<longrightarrow>
     (\<forall>st'. createSystemGeneratedEntry st tid uid svs \<noteq> Inr st')
     \<and> (missingRequired (template tpl) svs \<noteq> [] \<longrightarrow>
          createSystemGeneratedEntry st tid uid svs =
            Inl (MissingRequiredValues (missingRequired (template tpl) svs)))
     \<and> (missingRequired (template tpl) svs = [] \<longrightarrow>
          (\<exists>sv\<in>set svs. (\<exists>item\<in>set (template tpl). item_name item = sys_name sv)
             \<and> createSystemGeneratedEntry st tid uid svs = Inl (MissingBypassScore (sys_name sv))))"
proof
  assume a: "getKpiTemplate st tid = Some tpl
   \<and> (\<exists>sv\<in>set svs. \<exists>item\<in>set (template tpl). item_name item = sys_name sv)"
  then have t: "getKpiTemplate st tid = Some tpl" by simp
  have m: "\<exists>sv\<in>set svs. find (\<lambda>item. item_name item = sys_name sv) (template tpl) \<noteq> None"
    using a unfolding find_Some_ex by blast
  from validateLoop_system[OF m] obtain sv where sv: "sv \<in> set svs"
    "find (\<lambda>item. item_name item = sys_name sv) (template tpl) \<noteq> None"
    "validateLoop (template tpl) (systemEntryValues svs) = Inl (MissingBypassScore (sys_name sv))"
    by blast
  have never: "createSystemGeneratedEntry st tid uid svs \<noteq> Inr st'" for st'
    by (simp add: createSystemGeneratedEntry_def t split: sum.splits)
  have miss: "createSystemGeneratedEntry st tid uid svs =
            Inl (MissingRequiredValues (missingRequired (template tpl) svs))"
    if "missingRequired (template tpl) svs \<noteq> []"
    using that by (simp add: createSystemGeneratedEntry_def t validateAndCalculateScores_def
        validateRequiredValues_system)
  have byp: "createSystemGeneratedEntry st tid uid svs = Inl (MissingBypassScore (sys_name sv))"
    if "missingRequired (template tpl) svs = []"
    using that sv(3) by (simp add: createSystemGeneratedEntry_def t validateAndCalculateScores_def
        validateRequiredValues_system)
  have svm: "\<exists>item\<in>set (template tpl). item_name item = sys_name sv"
    using sv(2) unfolding find_Some_ex by blast
  show "(\<forall>st'. createSystemGeneratedEntry st tid uid svs \<noteq> Inr st')
     \<and> (missingRequired (template tpl) svs \<noteq> [] \<longrightarrow>
          createSystemGeneratedEntry st tid uid svs =
            Inl (MissingRequiredValues (missingRequired (template tpl) svs)))
     \<and> (missingRequired (template tpl) svs = [] \<longrightarrow>
          (\<exists>sv\<in>set svs. (\<exists>item\<in>set (template tpl). item_name item = sys_name sv)
             \<and> createSystemGeneratedEntry st tid uid svs = Inl (MissingBypassScore (sys_name sv))))"
    using never miss byp svm sv(1) by blast
qed

theorem C10_system_entry_never_created_witness:
  "getKpiTemplate (exStore ''daily'' [exItem ''A'' False, exItem ''B'' True] []) ''T1''
      = Some (exTemplate ''daily'' [exItem ''A'' False, exItem ''B'' True])
   \<and> (\<exists>sv\<in>set [exSystemValue ''A''].
        \<exists>item\<in>set (template (exTemplate ''daily'' [exItem ''A'' False, exItem ''B'' True])).
          item_name item = sys_name sv)
   \<and> missingRequired (template (exTemplate ''daily'' [exItem ''A'' False, exItem ''B'' True]))
        [exSystemValue ''A''] = []
   \<and> createSystemGeneratedEntry (exStore ''daily'' [exItem ''A'' False, exItem ''B'' True] [])
        ''T1'' ''u1'' [exSystemValue ''A''] = Inl (MissingBypassScore ''A'')"
proof -
  let ?st = "exStore ''daily'' [exItem ''A'' False, exItem ''B'' True] []"
  let ?tpl = "exTemplate ''daily'' [exItem ''A'' False, exItem ''B'' True]"
  have t: "getKpiTemplate ?st ''T1'' = Some ?tpl"
    by (simp add: getKpiTemplate_def example_defs)
  have m: "\<exists>sv\<in>set [exSystemValue ''A'']. \<exists>item\<in>set (template ?tpl). item_name item = sys_name sv"
    by (simp add: example_defs)
  have r: "missingRequired (template ?tpl) [exSystemValue ''A''] = []"
    by (simp add: missingRequired_def example_defs)
  have "\<exists>sv\<in>set [exSystemValue ''A'']. (\<exists>item\<in>set (template ?tpl). item_name item = sys_name sv)
      \<and> createSystemGeneratedEntry ?st ''T1'' ''u1'' [exSystemValue ''A'']
          = Inl (MissingBypassScore (sys_name sv))"
    using C10_system_entry_never_created[of ?st "''T1''" ?tpl "[exSystemValue ''A'']" "''u1''"]
      t m r by blast
  then have "createSystemGeneratedEntry ?st ''T1'' ''u1'' [exSystemValue ''A'']
          = Inl (MissingBypassScore ''A'')"
    by (simp add: exSystemValue_def)
  then show ?thesis using t m r by blast
qed


section \<open>Calendar and period windows\<close>

text \<open>\<open>YearFromDay\<close> meets the definition of \<open>YearFromTime\<close>.\<close>

lemma div_lo: "0 < k \<Longrightarrow> k * (x div k) \<le> (x::int)"
  using mult_div_mod_eq[of k x] pos_mod_sign[of k x] by linarith

lemma div_hi: "0 < k \<Longrightarrow> (x::int) \<le> k * (x div k) + (k - 1)"
  using mult_div_mod_eq[of k x] pos_mod_bound[of k x] by linarith

lemma DayFromYear_bounds:
  "400 * DayFromYear y \<le> 146097 * (y - 1970) + 589"
  "146097 * (y - 1970) - 506 \<le> 400 * DayFromYear y"
proof -
  define A where "A = (y - 1969) div 4"
  define B where "B = (y - 1901) div 100"
  define C where "C = (y - 1601) div 400"
  have a: "4 * A \<le> y - 1969" "y - 1969 \<le> 4 * A + 3"
    unfolding A_def using div_lo[of 4 "y - 1969"] div_hi[of 4 "y - 1969"] by simp_all
  have b: "100 * B \<le> y - 1901" "y - 1901 \<le> 100 * B + 99"
    unfolding B_def using div_lo[of 100 "y - 1901"] div_hi[of 100 "y - 1901"] by simp_all
  have c: "400 * C \<le> y - 1601" "y - 1601 \<le> 400 * C + 399"
    unfolding C_def using div_lo[of 400 "y - 1601"] div_hi[of 400 "y - 1601"] by simp_all
  have D: "DayFromYear y = 365 * (y - 1970) + A - B + C"
    by (simp add: DayFromYear_def A_def B_def C_def)
  show "400 * DayFromYear y \<le> 146097 * (y - 1970) + 589"
    unfolding D using a b c by (simp add: algebra_simps)
  show "146097 * (y - 1970) - 506 \<le> 400 * DayFromYear y"
    unfolding D using a b c by (simp add: algebra_simps)
qed

lemma YearFromDay_spec:
  "DayFromYear (YearFromDay d) \<le> d \<and> d < DayFromYear (YearFromDay d + 1)"
proof -
  define Q where "Q = (400 * d) div 146097"
  define y where "y = 1970 + Q"
  have q0: "146097 * Q \<le> 400 * d" "400 * d \<le> 146097 * Q + 146096"
    unfolding Q_def using div_lo[of 146097 "400 * d"] div_hi[of 146097 "400 * d"] by simp_all
  have yfd: "YearFromDay d = (if d < DayFromYear y then y - 1
         else if DayFromYear (y + 1) \<le> d then y + 1 else y)"
    by (simp add: YearFromDay_def y_def Q_def Let_def)
  show ?thesis
  proof (cases "d < DayFromYear y")
    case True
    have "DayFromYear (y - 1) \<le> d"
      using q0 DayFromYear_bounds(1)[of "y - 1"] unfolding y_def by (simp add: algebra_simps)
    then show ?thesis using yfd True by simp
  next
    case False
    show ?thesis
    proof (cases "DayFromYear (y + 1) \<le> d")
      case True
      have "d < DayFromYear (y + 2)"
        using q0 DayFromYear_bounds(2)[of "y + 2"] unfolding y_def by (simp add: algebra_simps)
      then show ?thesis using yfd True False by (simp add: add.commute)
    next
      case F2: False
      then show ?thesis using yfd False by simp
    qed
  qed
qed

lemma DayWithinYear_nonneg: "0 \<le> DayWithinYear t"
  using YearFromDay_spec[of "Day t"] by (simp add: DayWithinYear_def getFullYear_def)

lemma getMonth_range: "0 \<le> getMonth t \<and> getMonth t \<le> 11"
proof -
  define P where "P = (\<lambda>s. s \<le> DayWithinYear t)"
  define l where "l = leapDays (getFullYear t)"
  obtain rest where ms: "monthStarts l = 0 # rest" "length rest = 11"
    by (simp add: monthStarts_def)
  have "P 0" using DayWithinYear_nonneg[of t] by (simp add: P_def)
  then have "length (filter P (monthStarts l)) = Suc (length (filter P rest))"
    by (simp add: ms)
  moreover have "length (filter P rest) \<le> 11"
    using length_filter_le[of P rest] ms by simp
  ultimately show ?thesis by (simp add: getMonth_def P_def l_def)
qed

lemma MakeDay_of_date: "MakeDay (getFullYear t) (getMonth t) (getDate t) = Day t"
proof -
  have "getMonth t div 12 = 0" "getMonth t mod 12 = getMonth t"
    using getMonth_range[of t] by simp_all
  then show ?thesis
    by (simp add: MakeDay_def getDate_def DayWithinYear_def Let_def)
qed

text \<open>
  Except for a year from 0 to 99, which \<open>new Date\<close> moves to the 1900s, the daily window
  starts at the midnight of the reference day.
\<close>

lemma daily_window:
  "\<not> (0 \<le> getFullYear t \<and> getFullYear t \<le> 99) \<Longrightarrow>
   periodWindow ''daily'' t = Inr (Day t * msPerDay, Day t * msPerDay + msPerDay)"
  by (auto simp: periodWindow_def newDate_def MakeDay_of_date MakeDate_def msPerDay_def Let_def)

lemma msPerDay_pos: "0 < msPerDay"
  by (simp add: msPerDay_def)

lemma Day_bounds: "Day t * msPerDay \<le> t" "t < Day t * msPerDay + msPerDay"
  using div_lo[OF msPerDay_pos, of t] div_hi[OF msPerDay_pos, of t]
  by (simp_all add: Day_def mult.commute)

lemma Day_shift: "Day (t + j * msPerDay) = Day t + j"
  using msPerDay_pos by (simp add: Day_def)

lemma Day_midnight: "Day (d * msPerDay) = d"
  using msPerDay_pos by (simp add: Day_def)

lemma setHours_midnight: "setHours x 0 0 0 0 = Day x * msPerDay"
  by (simp add: setHours_def MakeDate_def)

lemma weekly_start: "setHours (t - k * 24 * 60 * 60 * 1000) 0 0 0 0 = (Day t - k) * msPerDay"
proof -
  have e: "t - k * 24 * 60 * 60 * 1000 = t + (- k) * msPerDay" by (simp add: msPerDay_def)
  show ?thesis unfolding setHours_midnight e Day_shift by simp
qed

lemma monday_of_week:
  "((x::int) - (if x mod 7 = 0 then 6 else x mod 7 - 1)) mod 7 = 1"
  by presburger

lemma getDay_monday:
  assumes d: "Day s = Day t - (if getDay t = 0 then 6 else getDay t - 1)"
  shows "getDay s = 1"
proof -
  have "getDay s = (Day t + 4 - (if getDay t = 0 then 6 else getDay t - 1)) mod 7"
    unfolding getDay_def[of s] d by (simp add: algebra_simps)
  also have "\<dots> = 1" unfolding getDay_def by (rule monday_of_week)
  finally show ?thesis .
qed

text \<open>The weekly window starts at the midnight of the Monday of the reference week.\<close>

lemma weekly_window:
  "\<exists>s. periodWindow ''weekly'' t = Inr (s, s + 7 * msPerDay)
       \<and> getDay s = 1 \<and> s mod msPerDay = 0 \<and> s \<le> t \<and> t < s + 7 * msPerDay"
proof -
  define k where "k = (if getDay t = 0 then 6 else getDay t - 1)"
  define s where "s = (Day t - k) * msPerDay"
  have w: "periodWindow ''weekly'' t = Inr (s, s + 7 * msPerDay)"
    unfolding s_def k_def weekly_start[symmetric]
    by (simp add: periodWindow_def Let_def msPerDay_def)
  have g: "0 \<le> getDay t" "getDay t < 7" by (simp_all add: getDay_def)
  have k06: "0 \<le> k" "k \<le> 6" using g by (simp_all add: k_def)
  have d: "Day s = Day t - k" unfolding s_def by (rule Day_midnight)
  have mon: "getDay s = 1" using d unfolding k_def by (rule getDay_monday)
  have m0: "s mod msPerDay = 0" by (simp add: s_def)
  have sk: "s = Day t * msPerDay - k * msPerDay" by (simp add: s_def left_diff_distrib)
  have kk: "0 \<le> k * msPerDay" "k * msPerDay \<le> 6 * msPerDay"
    using k06 msPerDay_pos by simp_all
  have le: "s \<le> t" using Day_bounds(1)[of t] kk(1) unfolding sk by linarith
  have lt: "t < s + 7 * msPerDay" using Day_bounds(2)[of t] kk(2) unfolding sk by linarith
  show ?thesis by (rule exI[of _ s]) (intro conjI w mon m0 le lt)
qed

text \<open>
  C2. The daily window of the code ends 24 hours after its start and the weekly window 7
  days after its start, which is a Monday: the end is the first instant of the next
  period, not the instant before it, and the comparison with the end is inclusive. For
  Friday 5 January 2024, 12:00, the daily window ends at Saturday 00:00:00.000 and the
  weekly window at Monday 8 January 00:00:00.000, while the monthly window ends at
  23:59:59.999 of 31 January; an entry made at that Saturday's 00:00:00.000 is a conflict
  for Friday and for Saturday.
\<close>

theorem C2_period_window_end:
  "(\<exists>s. periodWindow ''daily'' t = Inr (s, s + 86400000))
   \<and> (\<exists>s. periodWindow ''weekly'' t = Inr (s, s + 7 * 86400000) \<and> getDay s = 1)
   \<and> periodWindow ''daily'' 1704456000000 = Inr (1704412800000, 1704499200000)
   \<and> periodWindow ''weekly'' 1704456000000 = Inr (1704067200000, 1704672000000)
   \<and> periodWindow ''monthly'' 1704456000000 = Inr (1704067200000, 1706745599999)
   \<and> checkFrequencyValidation
        (exStore ''daily'' [] [exEntry ''e1'' ''u1'' Initiated 1704499200000])
        ''T1'' ''u1'' ''daily'' 1704456000000 = Inr True
   \<and> checkFrequencyValidation
        (exStore ''daily'' [] [exEntry ''e1'' ''u1'' Initiated 1704499200000])
        ''T1'' ''u1'' ''daily'' 1704499200000 = Inr True"
proof -
  have d: "\<exists>s. periodWindow ''daily'' t = Inr (s, s + 86400000)"
    by (simp add: periodWindow_def Let_def)
  have w: "\<exists>s. periodWindow ''weekly'' t = Inr (s, s + 7 * 86400000) \<and> getDay s = 1"
    using weekly_window[of t] by (auto simp: msPerDay_def)
  have e: "periodWindow ''daily'' 1704456000000 = Inr (1704412800000, 1704499200000)"
    "periodWindow ''weekly'' 1704456000000 = Inr (1704067200000, 1704672000000)"
    "periodWindow ''monthly'' 1704456000000 = Inr (1704067200000, 1706745599999)"
    by (simp_all add: periodWindow_def date_defs)
  have c: "checkFrequencyValidation
        (exStore ''daily'' [] [exEntry ''e1'' ''u1'' Initiated 1704499200000])
        ''T1'' ''u1'' ''daily'' 1704456000000 = Inr True"
    by (simp add: checkFrequencyValidation_def e example_defs)
  have c2: "checkFrequencyValidation
        (exStore ''daily'' [] [exEntry ''e1'' ''u1'' Initiated 1704499200000])
        ''T1'' ''u1'' ''daily'' 1704499200000 = Inr True"
    by (simp add: checkFrequencyValidation_def periodWindow_def date_defs example_defs)
  show ?thesis using d w e c c2 by blast
qed


section \<open>The update window\<close>

text \<open>
  C5. An entry made on Friday 5 January 2024, 12:00, under a weekly template cannot be
  updated on Saturday 6 January, 12:00: \<open>updateKpiEntry\<close> fails with
  \<open>UpdateWindowClosed\<close>, although both instants are in the same year and in the same
  week from Monday (the weekly window of \<open>checkFrequencyValidation\<close> is the same for
  both). \<open>getWeekNumber\<close> of the two is 1 and 2; it changes between Saturday
  00:00:00.000 and 00:00:00.001. With the entry generated the call fails with
  \<open>EntryLocked\<close>.
\<close>

theorem C5_weekly_update_window:
  "updateKpiEntry (exStore ''weekly'' [] [exEntry ''e1'' ''u1'' Initiated 1704456000000])
      1704542400000 ''e1'' exPartial ''admin'' = Inl UpdateWindowClosed
   \<and> periodWindow ''weekly'' 1704456000000 = periodWindow ''weekly'' 1704542400000
   \<and> getFullYear 1704456000000 = getFullYear 1704542400000
   \<and> getWeekNumber 1704456000000 = 1 \<and> getWeekNumber 1704542400000 = 2
   \<and> getWeekNumber 1704499200000 = 1 \<and> getWeekNumber 1704499200001 = 2
   \<and> updateKpiEntry (exStore ''weekly'' [] [exEntry ''e1'' ''u1'' Generated 1704456000000])
      1704542400000 ''e1'' exPartial ''admin'' = Inl EntryLocked"
proof -
  have wk: "getWeekNumber 1704456000000 = 1" "getWeekNumber 1704542400000 = 2"
    "getWeekNumber 1704499200000 = 1" "getWeekNumber 1704499200001 = 2"
    by (simp_all add: getWeekNumber_def date_defs ceiling_eq_iff)
  have y: "getFullYear 1704456000000 = getFullYear 1704542400000"
    by (simp add: date_defs)
  have w: "periodWindow ''weekly'' 1704456000000 = periodWindow ''weekly'' 1704542400000"
    by (simp add: periodWindow_def date_defs)
  have u: "updateKpiEntry (exStore ''weekly'' [] [exEntry ''e1'' ''u1'' Initiated 1704456000000])
      1704542400000 ''e1'' exPartial ''admin'' = Inl UpdateWindowClosed"
    by (simp add: updateKpiEntry_def getKpiTemplate_def isWithinUpdatePeriod_def wk example_defs)
  have l: "updateKpiEntry (exStore ''weekly'' [] [exEntry ''e1'' ''u1'' Generated 1704456000000])
      1704542400000 ''e1'' exPartial ''admin'' = Inl EntryLocked"
    by (simp add: updateKpiEntry_def example_defs)
  show ?thesis by (intro conjI u w y wk l)
qed

section \<open>Entries after generation\<close>

text \<open>
  C6. The static \<open>updateKpiEntry\<close> refuses a generated entry with \<open>EntryLocked\<close>, but
  the instance method \<open>updateKpiEntry(id, kpiEntry)\<close> replaces the values of a generated
  entry and sets its status back to \<open>initiated\<close>; and the static \<open>updateKpiEntry\<close>
  with \<open>status: 'generated'\<close> in its payload moves an initiated entry to
  \<open>generated\<close> without any report.
\<close>

theorem C6_generated_entry_mutated:
  "updateKpiEntry (exStore ''daily'' [] [exEntry ''e1'' ''u1'' Generated 1704456000000])
      1704460000000 ''e1'' exPartial ''admin'' = Inl EntryLocked
   \<and> kpiEntries (updateKpiEntryById
         (exStore ''daily'' [] [exEntry ''e1'' ''u1'' Generated 1704456000000])
         1704460000000 ''e1'' exFields)
       = [(exEntry ''e1'' ''u1'' Generated 1704456000000)
            \<lparr>entry_values := kf_values exFields, status := Initiated,
             updatedAt := 1704460000000\<rparr>]
   \<and> updateKpiEntry (exStore ''daily'' [] [exEntry ''e1'' ''u1'' Initiated 1704456000000])
         1704460000000 ''e1'' (exPartial\<lparr>kp_status := Some Generated\<rparr>) ''admin''
       = Inr (exStore ''daily'' []
           [(exEntry ''e1'' ''u1'' Initiated 1704456000000)
              \<lparr>entry_totalScore := 0, status := Generated, updatedAt := 1704460000000\<rparr>])"
proof -
  have a: "updateKpiEntry (exStore ''daily'' [] [exEntry ''e1'' ''u1'' Generated 1704456000000])
      1704460000000 ''e1'' exPartial ''admin'' = Inl EntryLocked"
    by (simp add: updateKpiEntry_def example_defs)
  have b: "kpiEntries (updateKpiEntryById
         (exStore ''daily'' [] [exEntry ''e1'' ''u1'' Generated 1704456000000])
         1704460000000 ''e1'' exFields)
       = [(exEntry ''e1'' ''u1'' Generated 1704456000000)
            \<lparr>entry_values := kf_values exFields, status := Initiated,
             updatedAt := 1704460000000\<rparr>]"
    by (simp add: updateKpiEntryById_def example_defs exFields_def)
  have c: "updateKpiEntry (exStore ''daily'' [] [exEntry ''e1'' ''u1'' Initiated 1704456000000])
         1704460000000 ''e1'' (exPartial\<lparr>kp_status := Some Generated\<rparr>) ''admin''
       = Inr (exStore ''daily'' []
           [(exEntry ''e1'' ''u1'' Initiated 1704456000000)
              \<lparr>entry_totalScore := 0, status := Generated, updatedAt := 1704460000000\<rparr>])"
    by (simp add: updateKpiEntry_def getKpiTemplate_def isWithinUpdatePeriod_def example_defs
        exPartial_def totalScoreOf_def date_defs)
  show ?thesis by (intro conjI a b c)
qed

section \<open>Completion rate\<close>

lemma getKpiTemplate_exStore:
  "getKpiTemplate (exStore freq items es) ''T1'' = Some (exTemplate freq items)"
  by (simp add: getKpiTemplate_def exStore_def exTemplate_def)

lemma completion_values:
  "mathRound (numMul (numDiv 3 4) 100) = 75"
  "mathRound (numMul (numDiv 23 40) 100) = 57"
  "mathRound (100 * 23 / 40) = 58"
  by code_simp+

lemma roundedAverageOf_Nil: "roundedAverageOf [] = 0"
  by code_simp

text \<open>
  C8. On an empty list of rows the completion rate is \<open>NaN\<close>: for a department and role
  without members \<open>getKpiEntriesStatisticsByDepartmentAndRole\<close> returns the guarded zeros
  for the average, highest and lowest score and \<open>NaN\<close> for the completion rate, and so
  does the department-wide completion rate of \<open>generateReportByDepartment\<close>. On a
  non-empty list the completion rate is \<open>Math.round\<close> of the double
  \<open>(membersWithEntries / totalMembers) * 100\<close>: 75 for three entries among four members,
  and 57 for 23 entries among 40 members, where 100 \<times> 23 / 40 is 57.5 and rounds to 58.
\<close>

theorem C8_completion_rate:
  "completionRateOf [] = None
   \<and> getKpiEntriesStatisticsByDepartmentAndRole (exStore ''daily'' [] []) 1 10
        ''T1'' ''south'' ''sales'' = ([], emptyStatistics)
   \<and> map_sum id (\<lambda>res. ds_completionRate (departmentStatistics (snd res)))
        (generateReportByDepartment (exStore ''daily'' [] []) 1704456000000
           ''south'' ''T1'' ''admin'') = Inr None
   \<and> completionRateOf [scoreRow 9, scoreRow 8, scoreRow 7, (scoreRow 0)\<lparr>hasEntry := False\<rparr>]
       = Some 75
   \<and> completionRateOf
        (replicate 23 (scoreRow 1) @ replicate 17 ((scoreRow 0)\<lparr>hasEntry := False\<rparr>))
       = Some 57
   \<and> mathRound (100 * 23 / 40) = 58"
proof -
  have a: "completionRateOf [] = None" by (simp add: completionRateOf_def)
  have c: "completionRateOf [scoreRow 9, scoreRow 8, scoreRow 7, (scoreRow 0)\<lparr>hasEntry := False\<rparr>]
       = Some 75"
    by (simp add: completionRateOf_def scoreRow_def completion_values)
  have c': "completionRateOf
        (replicate 23 (scoreRow 1) @ replicate 17 ((scoreRow 0)\<lparr>hasEntry := False\<rparr>))
       = Some 57"
    by (simp add: completionRateOf_def scoreRow_def completion_values)
  have m: "getMembers (exStore ''daily'' [] []) p l (Some ''south'') r' = []" for p l r'
    by (simp add: getMembers_def exactCondition_def trim_def isWhiteSpace_def example_defs Let_def)
  have d: "getKpiEntriesStatisticsByDepartmentAndRole (exStore ''daily'' [] []) 1 10
        ''T1'' ''south'' ''sales'' = ([], emptyStatistics)"
    by (simp add: getKpiEntriesStatisticsByDepartmentAndRole_def m rankMembers_def sortJS_def
        assignRankings_def statisticsOf_def emptyStatistics_def a roundedAverageOf_Nil)
  have e: "map_sum id (\<lambda>res. ds_completionRate (departmentStatistics (snd res)))
        (generateReportByDepartment (exStore ''daily'' [] []) 1704456000000
           ''south'' ''T1'' ''admin'') = Inr None"
    by (simp add: generateReportByDepartment_def m membersByRoleOf_def a getKpiTemplate_exStore)
  show ?thesis by (intro conjI a d e c c' completion_values(3))
qed

section \<open>Report generation\<close>

subsection \<open>Rows\<close>

lemma set_sortJS: "set (sortJS cmp xs) = set xs"
  unfolding sortJS_def by (induction xs) (auto simp: set_insertSorted)

lemma length_insertSorted: "length (insertSorted cmp x ys) = Suc (length ys)"
  by (induction ys) auto

lemma length_sortJS: "length (sortJS cmp xs) = length xs"
  unfolding sortJS_def by (induction xs) (auto simp: length_insertSorted)

lemma rankLoop_fields:
  "map (\<lambda>r. (memberId r, hasEntry r)) (rankLoop i cr cs rs) = map (\<lambda>r. (memberId r, hasEntry r)) rs"
  by (induction rs arbitrary: i cr cs) auto

lemma rankMembers_fields:
  "set (map (\<lambda>r. (memberId r, hasEntry r)) (rankMembers em ms))
     = (\<lambda>m. (userId m, em (userId m) \<noteq> None)) ` set ms"
proof -
  have "set (map (\<lambda>r. (memberId r, hasEntry r)) (rankMembers em ms))
      = (\<lambda>r. (memberId r, hasEntry r)) ` set (sortJS byTotalScoreDesc (map (rankingRow em) ms))"
    by (simp add: rankMembers_def assignRankings_def rankLoop_fields)
  also have "\<dots> = (\<lambda>r. (memberId r, hasEntry r)) ` rankingRow em ` set ms"
    by (simp add: set_sortJS)
  also have "\<dots> = (\<lambda>m. (userId m, em (userId m) \<noteq> None)) ` set ms"
    by (simp add: image_image rankingRow_def Let_def)
  finally show ?thesis .
qed

lemma rankMembers_length: "length (rankMembers em ms) = length ms"
  by (simp add: rankMembers_def assignRankings_def rankLoop_length length_sortJS)

subsection \<open>Role groups\<close>

lemma addMember_members:
  "set (concat (map snd (addMember m gs))) = insert m (set (concat (map snd gs)))"
  by (induction m gs rule: addMember.induct) (auto simp del: set_concat)

lemma addMember_length:
  "length (concat (map snd (addMember m gs))) = Suc (length (concat (map snd gs)))"
  by (induction m gs rule: addMember.induct) (simp_all del: length_concat)

lemma membersByRoleOf_members: "set (concat (map snd (membersByRoleOf docs))) = set docs"
proof -
  have "set (concat (map snd (foldl (\<lambda>groups m. addMember m groups) gs docs)))
        = set (concat (map snd gs)) \<union> set docs" for gs
    by (induction docs arbitrary: gs) (simp_all add: addMember_members del: set_concat)
  then show ?thesis by (simp add: membersByRoleOf_def)
qed

lemma membersByRoleOf_length: "length (concat (map snd (membersByRoleOf docs))) = length docs"
proof -
  have "length (concat (map snd (foldl (\<lambda>groups m. addMember m groups) gs docs)))
        = length (concat (map snd gs)) + length docs" for gs
    by (induction docs arbitrary: gs) (simp_all add: addMember_length del: length_concat)
  then show ?thesis by (simp add: membersByRoleOf_def)
qed

subsection \<open>The map of entries\<close>

lemma entriesMapOf_snoc:
  "entriesMapOf (es @ [e]) uid = (if createdFor e = uid then Some e else entriesMapOf es uid)"
  by (simp add: entriesMapOf_def)

lemma entriesMapOf_Some:
  "entriesMapOf es uid = Some x \<Longrightarrow> x \<in> set es \<and> createdFor x = uid"
  by (induction es rule: rev_induct) (auto simp: entriesMapOf_snoc entriesMapOf_def split: if_splits)

lemma entriesMapOf_None:
  "(entriesMapOf es uid = None) = (uid \<notin> createdFor ` set es)"
  by (induction es rule: rev_induct) (auto simp: entriesMapOf_snoc entriesMapOf_def)

subsection \<open>The result of a report\<close>

lemma markGenerated_Nil: "markGenerated [] now es = es"
  by (simp add: markGenerated_def)

lemma generateReport_result:
  assumes "getKpiTemplate st tid = Some tpl"
  shows "\<exists>rep. generateReportByDepartment st now d tid g =
            Inr (st\<lparr>kpiEntries := markGenerated (lockedIds st d tid) now (kpiEntries st)\<rparr>, rep)
          \<and> reportRows rep =
              concat (map (\<lambda>grp. rankMembers (entriesMapOf (openEntries st d tid)) (snd grp))
                        (membersByRoleOf (roster st d)))
          \<and> roleReports rep =
              map (roleReportOf (entriesMapOf (openEntries st d tid)))
                (membersByRoleOf (roster st d))"
proof (cases "lockedIds st d tid = []")
  case True
  then show ?thesis
    using assms
    by (simp add: generateReportByDepartment_def Let_def reportRows_def roster_def
        openEntries_def lockedIds_def roleReportOf_def markGenerated_Nil comp_def
        del: set_map concat_eq_Nil_conv)
next
  case False
  then show ?thesis
    using assms
    by (simp add: generateReportByDepartment_def Let_def reportRows_def roster_def
        openEntries_def lockedIds_def roleReportOf_def comp_def
        del: set_map concat_eq_Nil_conv)
qed

lemma generateReport_template:
  "generateReportByDepartment st now d tid g = Inr res \<Longrightarrow> \<exists>tpl. getKpiTemplate st tid = Some tpl"
  by (cases "getKpiTemplate st tid") (simp_all add: generateReportByDepartment_def)

lemma rows_fields:
  "set (map (\<lambda>r. (memberId r, hasEntry r)) (concat (map (\<lambda>grp. rankMembers em (snd grp)) groups)))
     = (\<lambda>m. (userId m, em (userId m) \<noteq> None)) ` set (concat (map snd groups))"
proof (induction groups)
  case Nil
  then show ?case by simp
next
  case (Cons grp groups)
  have "set (map (\<lambda>r. (memberId r, hasEntry r)) (concat (map (\<lambda>grp. rankMembers em (snd grp)) (grp # groups))))
      = set (map (\<lambda>r. (memberId r, hasEntry r)) (rankMembers em (snd grp)))
        \<union> set (map (\<lambda>r. (memberId r, hasEntry r)) (concat (map (\<lambda>grp. rankMembers em (snd grp)) groups)))"
    by (simp del: set_concat set_map)
  also have "\<dots> = (\<lambda>m. (userId m, em (userId m) \<noteq> None)) ` set (snd grp)
        \<union> (\<lambda>m. (userId m, em (userId m) \<noteq> None)) ` set (concat (map snd groups))"
    unfolding Cons.IH rankMembers_fields ..
  also have "\<dots> = (\<lambda>m. (userId m, em (userId m) \<noteq> None)) ` set (concat (map snd (grp # groups)))"
    by (simp add: image_Un del: set_concat)
  finally show ?case .
qed

lemma rows_length:
  "length (concat (map (\<lambda>grp. rankMembers em (snd grp)) groups)) = length (concat (map snd groups))"
  by (induction groups) (simp_all add: rankMembers_length del: length_concat)

lemma report_rows_fields:
  assumes "generateReportByDepartment st now d tid g = Inr (st', rep)"
  shows "set (map (\<lambda>r. (memberId r, hasEntry r)) (reportRows rep))
     = (\<lambda>m. (userId m, entriesMapOf (openEntries st d tid) (userId m) \<noteq> None)) ` set (roster st d)"
    and "length (reportRows rep) = length (roster st d)"
    and "st' = st\<lparr>kpiEntries := markGenerated (lockedIds st d tid) now (kpiEntries st)\<rparr>"
proof -
  from generateReport_template[OF assms] obtain tpl where "getKpiTemplate st tid = Some tpl" ..
  from generateReport_result[OF this, of now d g] assms
  have r: "reportRows rep =
              concat (map (\<lambda>grp. rankMembers (entriesMapOf (openEntries st d tid)) (snd grp))
                        (membersByRoleOf (roster st d)))"
    and s: "st' = st\<lparr>kpiEntries := markGenerated (lockedIds st d tid) now (kpiEntries st)\<rparr>"
    by auto
  show "set (map (\<lambda>r. (memberId r, hasEntry r)) (reportRows rep))
     = (\<lambda>m. (userId m, entriesMapOf (openEntries st d tid) (userId m) \<noteq> None)) ` set (roster st d)"
    unfolding r rows_fields membersByRoleOf_members ..
  show "length (reportRows rep) = length (roster st d)"
    unfolding r rows_length membersByRoleOf_length ..
  show "st' = st\<lparr>kpiEntries := markGenerated (lockedIds st d tid) now (kpiEntries st)\<rparr>"
    by (rule s)
qed

lemma entriesToUpdateOf_member:
  "m \<in> set ms \<Longrightarrow> em (userId m) = Some e \<Longrightarrow> status e \<noteq> Generated \<Longrightarrow>
   entry_id e \<in> set (entriesToUpdateOf em ms)"
  by (auto simp: entriesToUpdateOf_def intro!: bexI[of _ m])

lemma lockedIds_member:
  assumes "m \<in> set (roster st d)"
    "entriesMapOf (openEntries st d tid) (userId m) = Some e" "status e \<noteq> Generated"
  shows "entry_id e \<in> set (lockedIds st d tid)"
proof -
  from assms(1) have "m \<in> set (concat (map snd (membersByRoleOf (roster st d))))"
    by (simp only: membersByRoleOf_members)
  then obtain grp where grp: "grp \<in> set (membersByRoleOf (roster st d))" "m \<in> set (snd grp)"
    by auto
  have "entry_id e \<in> set (entriesToUpdateOf (entriesMapOf (openEntries st d tid)) (snd grp))"
    using grp(2) assms(2,3) by (rule entriesToUpdateOf_member)
  then show ?thesis using grp(1) by (auto simp: lockedIds_def)
qed

lemma roster_members: "members st' = members st \<Longrightarrow> roster st' d = roster st d"
  by (simp add: roster_def getMembers_def)

lemma filter_at_most_one:
  assumes "length (filter P xs) \<le> 1" "x \<in> set xs" "P x" "y \<in> set xs" "P y"
  shows "x = y"
proof -
  have x: "x \<in> set (filter P xs)" and y: "y \<in> set (filter P xs)" using assms by simp_all
  show ?thesis
  proof (cases "filter P xs")
    case Nil
    then show ?thesis using x by simp
  next
    case (Cons z zs)
    then have "zs = []" using assms(1) by simp
    then show ?thesis using x y Cons by simp
  qed
qed

lemma second_run_no_entry:
  assumes one: "length (filter (\<lambda>e. kpiTemplateId e = tid \<and> createdFor e = uid
                                     \<and> status e \<noteq> Generated) (kpiEntries st)) \<le> 1"
    and st1: "st1 = st\<lparr>kpiEntries := markGenerated (lockedIds st d tid) now (kpiEntries st)\<rparr>"
    and m: "m \<in> set (roster st d)" "userId m = uid"
  shows "entriesMapOf (openEntries st1 d tid) uid = None"
proof (rule ccontr)
  assume "entriesMapOf (openEntries st1 d tid) uid \<noteq> None"
  then obtain e1 where e1: "e1 \<in> set (openEntries st1 d tid)" "createdFor e1 = uid"
    by (auto simp: entriesMapOf_None)
  have ros: "roster st1 d = roster st d" by (rule roster_members) (simp add: st1)
  from e1(1) have e1': "e1 \<in> set (markGenerated (lockedIds st d tid) now (kpiEntries st))"
    "kpiTemplateId e1 = tid" "status e1 \<noteq> Generated"
    by (simp_all add: openEntries_def st1)
  from e1'(1) obtain e where e: "e \<in> set (kpiEntries st)"
    "e1 = (if entry_id e \<in> set (lockedIds st d tid) then e\<lparr>status := Generated, updatedAt := now\<rparr> else e)"
    by (auto simp: markGenerated_def)
  have notin: "entry_id e \<notin> set (lockedIds st d tid)"
    using e(2) e1'(3) by (auto split: if_splits)
  then have ee: "e1 = e" using e(2) by simp
  have P_e: "kpiTemplateId e = tid \<and> createdFor e = uid \<and> status e \<noteq> Generated"
    using ee e1(2) e1'(2,3) by simp
  have "e \<in> set (openEntries st d tid)"
    using e(1) P_e m by (auto simp: openEntries_def)
  then have "entriesMapOf (openEntries st d tid) uid \<noteq> None"
    using P_e by (auto simp: entriesMapOf_None)
  then obtain e2 where e2: "entriesMapOf (openEntries st d tid) uid = Some e2" by auto
  from entriesMapOf_Some[OF this] have e2': "e2 \<in> set (openEntries st d tid)" "createdFor e2 = uid"
    by simp_all
  then have P_e2: "e2 \<in> set (kpiEntries st)"
    "kpiTemplateId e2 = tid \<and> createdFor e2 = uid \<and> status e2 \<noteq> Generated"
    by (auto simp: openEntries_def)
  have "e = e2"
    using filter_at_most_one[OF one e(1) P_e P_e2] .
  then have "entry_id e \<in> set (lockedIds st d tid)"
    using lockedIds_member[OF m(1), of tid e2] e2 m(2) P_e2(2) by simp
  then show False using notin by simp
qed

lemmas report_defs = generateReportByDepartment_def getKpiTemplate_def getMembers_def
  exactCondition_def trim_def isWhiteSpace_def membersByRoleOf_def entriesMapOf_def
  entriesToUpdateOf_def markGenerated_def roleReportOf_def rankMembers_def rankingRow_def
  sortJS_def assignRankings_def reportRows_def rowSummary_def

text \<open>
  C7, as the claim states it, fails: the member \<open>u1\<close> has two entries that are not
  generated. The first report shows the later one, \<open>e2\<close>, and locks it; the second
  report, run on the store the first one left, shows \<open>u1\<close> with \<open>hasEntry\<close> true, on
  the entry \<open>e1\<close>.
\<close>

theorem C7_counterexample:
  "map_sum id (\<lambda>res. map rowSummary (reportRows (snd res)))
      (generateReportByDepartment
         (exStore ''daily'' [] [exEntry ''e1'' ''u1'' Initiated 1704369600000,
                                exEntry ''e2'' ''u1'' Initiated 1704456000000])
         1704542400000 ''north'' ''T1'' ''admin'')
     = Inr [(''u1'', True, Some ''e2'')]
   \<and> map_sum id fst
      (generateReportByDepartment
         (exStore ''daily'' [] [exEntry ''e1'' ''u1'' Initiated 1704369600000,
                                exEntry ''e2'' ''u1'' Initiated 1704456000000])
         1704542400000 ''north'' ''T1'' ''admin'')
     = Inr (exStore ''daily'' [] [exEntry ''e1'' ''u1'' Initiated 1704369600000,
              (exEntry ''e2'' ''u1'' Initiated 1704456000000)
                 \<lparr>status := Generated, updatedAt := 1704542400000\<rparr>])
   \<and> map_sum id (\<lambda>res. map rowSummary (reportRows (snd res)))
      (generateReportByDepartment
         (exStore ''daily'' [] [exEntry ''e1'' ''u1'' Initiated 1704369600000,
              (exEntry ''e2'' ''u1'' Initiated 1704456000000)
                 \<lparr>status := Generated, updatedAt := 1704542400000\<rparr>])
         1704542500000 ''north'' ''T1'' ''admin'')
     = Inr [(''u1'', True, Some ''e1'')]"
  by (simp add: report_defs example_defs Let_def)

text \<open>
  C7, amended. Let a report be generated, and then a second one for the same department
  and template on the store the first one left. The second report lists the same members,
  and every member who had at most one entry of the template that was not generated has
  \<open>hasEntry\<close> false in it: the entry the first report showed is locked, and the query
  leaves locked entries out.
\<close>

theorem C7_second_report:
  "generateReportByDepartment st now d tid g = Inr (st1, rep1)
   \<and> generateReportByDepartment st1 now' d tid g' = Inr (st2, rep2)
   \<and> length (filter (\<lambda>e. kpiTemplateId e = tid \<and> createdFor e = uid \<and> status e \<noteq> Generated)
               (kpiEntries st)) \<le> 1
   \<longrightarrow> (\<forall>r\<in>set (reportRows rep2). memberId r = uid \<longrightarrow> \<not> hasEntry r)
       \<and> memberId ` set (reportRows rep2) = memberId ` set (reportRows rep1)"
proof
  assume a: "generateReportByDepartment st now d tid g = Inr (st1, rep1)
   \<and> generateReportByDepartment st1 now' d tid g' = Inr (st2, rep2)
   \<and> length (filter (\<lambda>e. kpiTemplateId e = tid \<and> createdFor e = uid \<and> status e \<noteq> Generated)
               (kpiEntries st)) \<le> 1"
  then have g1: "generateReportByDepartment st now d tid g = Inr (st1, rep1)"
    and g2: "generateReportByDepartment st1 now' d tid g' = Inr (st2, rep2)"
    and one: "length (filter (\<lambda>e. kpiTemplateId e = tid \<and> createdFor e = uid
                \<and> status e \<noteq> Generated) (kpiEntries st)) \<le> 1"
    by simp_all
  note r1 = report_rows_fields[OF g1] and r2 = report_rows_fields[OF g2]
  have ros: "roster st1 d = roster st d"
    by (rule roster_members) (simp add: r1(3))
  have ids: "memberId ` set (reportRows rep) = fst ` set (map (\<lambda>r. (memberId r, hasEntry r)) (reportRows rep))"
    for rep by (simp add: image_image)
  have same: "memberId ` set (reportRows rep2) = memberId ` set (reportRows rep1)"
    unfolding ids r1(1) r2(1) ros by (simp add: image_image)
  have none: "\<not> hasEntry r" if r: "r \<in> set (reportRows rep2)" and u: "memberId r = uid" for r
  proof -
    from r have "(memberId r, hasEntry r) \<in> set (map (\<lambda>r. (memberId r, hasEntry r)) (reportRows rep2))"
      by simp
    then obtain m where m: "m \<in> set (roster st d)" "userId m = memberId r"
      "hasEntry r = (entriesMapOf (openEntries st1 d tid) (userId m) \<noteq> None)"
      unfolding r2(1) ros by auto
    have "entriesMapOf (openEntries st1 d tid) uid = None"
      using one r1(3) m(1) by (rule second_run_no_entry) (simp add: m(2) u)
    then show ?thesis using m(2,3) u by simp
  qed
  show "(\<forall>r\<in>set (reportRows rep2). memberId r = uid \<longrightarrow> \<not> hasEntry r)
       \<and> memberId ` set (reportRows rep2) = memberId ` set (reportRows rep1)"
    using none same by blast
qed

theorem C7_second_report_witness:
  "\<exists>st1 rep1 st2 rep2.
      generateReportByDepartment
        (exStore ''daily'' [] [exEntry ''e1'' ''u1'' Initiated 1704456000000])
        1704542400000 ''north'' ''T1'' ''admin'' = Inr (st1, rep1)
      \<and> generateReportByDepartment st1 1704542500000 ''north'' ''T1'' ''admin'' = Inr (st2, rep2)
      \<and> length (filter (\<lambda>e. kpiTemplateId e = ''T1'' \<and> createdFor e = ''u1''
                            \<and> status e \<noteq> Generated)
           (kpiEntries (exStore ''daily'' [] [exEntry ''e1'' ''u1'' Initiated 1704456000000])))
          \<le> 1
      \<and> map rowSummary (reportRows rep1) = [(''u1'', True, Some ''e1'')]
      \<and> memberId ` set (reportRows rep2) = {''u1''}
      \<and> hasEntry ` set (reportRows rep2) = {False}"
proof -
  let ?st = "exStore ''daily'' [] [exEntry ''e1'' ''u1'' Initiated 1704456000000]"
  have t: "getKpiTemplate ?st ''T1'' = Some (exTemplate ''daily'' [])"
    by (rule getKpiTemplate_exStore)
  from generateReport_result[OF t, of 1704542400000 "''north''" "''admin''"]
  obtain st1 rep1 where g1: "generateReportByDepartment ?st 1704542400000 ''north'' ''T1'' ''admin''
      = Inr (st1, rep1)" by blast
  have s1: "st1 = ?st\<lparr>kpiEntries := markGenerated (lockedIds ?st ''north'' ''T1'') 1704542400000
      (kpiEntries ?st)\<rparr>"
    using report_rows_fields(3)[OF g1] .
  have "getKpiTemplate st1 ''T1'' = Some (exTemplate ''daily'' [])"
    using t by (simp add: s1 getKpiTemplate_def)
  from generateReport_result[OF this, of 1704542500000 "''north''" "''admin''"]
  obtain st2 rep2 where g2: "generateReportByDepartment st1 1704542500000 ''north'' ''T1'' ''admin''
      = Inr (st2, rep2)" by blast
  have one: "length (filter (\<lambda>e. kpiTemplateId e = ''T1'' \<and> createdFor e = ''u1''
                            \<and> status e \<noteq> Generated) (kpiEntries ?st)) \<le> 1"
    by (simp add: example_defs)
  have rows1: "map rowSummary (reportRows rep1) = [(''u1'', True, Some ''e1'')]"
  proof -
    have "map_sum id (\<lambda>res. map rowSummary (reportRows (snd res)))
      (generateReportByDepartment ?st 1704542400000 ''north'' ''T1'' ''admin'')
        = Inr [(''u1'', True, Some ''e1'')]"
      by (simp add: report_defs example_defs Let_def)
    then show ?thesis by (simp add: g1)
  qed
  have ids1: "memberId ` set (reportRows rep1) = {''u1''}"
  proof -
    have "memberId ` set (reportRows rep1) = fst ` set (map rowSummary (reportRows rep1))"
      by (simp add: image_image rowSummary_def)
    then show ?thesis by (simp add: rows1)
  qed
  from C7_second_report[of ?st 1704542400000 "''north''" "''T1''" "''admin''" st1 rep1
      1704542500000 "''admin''" st2 rep2 "''u1''"] g1 g2 one
  have c: "\<forall>r\<in>set (reportRows rep2). memberId r = ''u1'' \<longrightarrow> \<not> hasEntry r"
    and same: "memberId ` set (reportRows rep2) = memberId ` set (reportRows rep1)"
    by blast+
  have ids2: "memberId ` set (reportRows rep2) = {''u1''}" using same ids1 by simp
  have hf: "hasEntry ` set (reportRows rep2) = {False}"
  proof -
    obtain r0 where r0: "r0 \<in> set (reportRows rep2)" using ids2 by fastforce
    have all: "\<not> hasEntry r" if "r \<in> set (reportRows rep2)" for r
    proof -
      have "memberId r \<in> memberId ` set (reportRows rep2)" using that by (rule imageI)
      then have "memberId r = ''u1''" unfolding ids2 by simp
      then show ?thesis using c that by simp
    qed
    show ?thesis
    proof (rule equalityI)
      show "hasEntry ` set (reportRows rep2) \<subseteq> {False}" using all by auto
      have "hasEntry r0 = False" using all[OF r0] by simp
      then have "False \<in> hasEntry ` set (reportRows rep2)" using r0 by (metis imageI)
      then show "{False} \<subseteq> hasEntry ` set (reportRows rep2)" by simp
    qed
  qed
  show ?thesis
    by (intro exI conjI) (rule g1, rule g2, rule one, rule rows1, rule ids2, rule hf)
qed

subsection \<open>The size of the roster\<close>

lemma roster_length: "length (roster st d) \<le> 1000"
  by (simp add: roster_def getMembers_def Let_def)

lemma trim_north: "trim ''north'' = ''north''"
  by (simp add: trim_def isWhiteSpace_def)

lemma filter_manyMembers:
  "filter (\<lambda>m. departmentSlug m = ''north'') (manyMembers n) = manyMembers n"
  by (simp add: manyMembers_def exMember_def filter_map comp_def)

lemma take_manyMembers: "k \<le> n \<Longrightarrow> take k (manyMembers n) = manyMembers k"
  by (simp add: manyMembers_def take_map)

lemma length_manyMembers: "length (manyMembers n) = n"
  by (simp add: manyMembers_def)

lemma userId_manyMembers: "(uid \<in> userId ` set (manyMembers n)) = (\<exists>i<n. uid = replicate i CHR ''x'')"
  by (auto simp: manyMembers_def exMember_def image_image)

lemma manyMembers_member: "i < n \<Longrightarrow> exMember (replicate i CHR ''x'') \<in> set (manyMembers n)"
  by (auto simp: manyMembers_def)

lemma roster_bigStore: "roster bigStore ''north'' = manyMembers 1000"
proof -
  have t: "take 1000 (manyMembers 1001) = manyMembers 1000"
    by (rule take_manyMembers) simp
  show ?thesis
    by (simp add: roster_def getMembers_def exactCondition_def trim_north bigStore_def
        filter_manyMembers t)
qed

text \<open>
  C9. A report never has more than 1000 rows. In a department of 1001 members the report
  has 1000 rows and the last member of the department is in none of them.
\<close>

theorem C9_roster_is_capped:
  "(case generateReportByDepartment st now d tid g of
      Inl e \<Rightarrow> True
    | Inr res \<Rightarrow> length (reportRows (snd res)) \<le> 1000)
   \<and> exMember (replicate 1000 CHR ''x'') \<in> set (members bigStore)
   \<and> departmentSlug (exMember (replicate 1000 CHR ''x'')) = ''north''
   \<and> length (filter (\<lambda>m. departmentSlug m = ''north'') (members bigStore)) = 1001
   \<and> (case generateReportByDepartment bigStore now ''north'' ''T1'' ''admin'' of
        Inl e \<Rightarrow> False
      | Inr res \<Rightarrow> length (reportRows (snd res)) = 1000
                   \<and> replicate 1000 CHR ''x'' \<notin> memberId ` set (reportRows (snd res)))"
proof -
  have a: "(case generateReportByDepartment st now d tid g of
      Inl e \<Rightarrow> True
    | Inr res \<Rightarrow> length (reportRows (snd res)) \<le> 1000)"
  proof (cases "generateReportByDepartment st now d tid g")
    case (Inl e)
    then show ?thesis by simp
  next
    case (Inr res)
    then have "generateReportByDepartment st now d tid g = Inr (fst res, snd res)" by simp
    from report_rows_fields(2)[OF this] show ?thesis
      using roster_length[of st d] Inr by simp
  qed
  have b: "exMember (replicate 1000 CHR ''x'') \<in> set (members bigStore)"
    by (simp add: bigStore_def manyMembers_member)
  have c: "departmentSlug (exMember (replicate 1000 CHR ''x'')) = ''north''"
    by (simp add: exMember_def)
  have c': "length (filter (\<lambda>m. departmentSlug m = ''north'') (members bigStore)) = 1001"
    by (simp add: bigStore_def filter_manyMembers length_manyMembers)
  have t: "getKpiTemplate bigStore ''T1'' = Some (exTemplate ''daily'' [])"
    by (simp add: getKpiTemplate_def bigStore_def exTemplate_def)
  from generateReport_result[OF t, of now "''north''" "''admin''"]
  obtain st' rep where g: "generateReportByDepartment bigStore now ''north'' ''T1'' ''admin''
      = Inr (st', rep)" by blast
  have len: "length (reportRows rep) = 1000"
    using report_rows_fields(2)[OF g] by (simp add: roster_bigStore length_manyMembers)
  have "memberId ` set (reportRows rep) = fst ` set (map (\<lambda>r. (memberId r, hasEntry r)) (reportRows rep))"
    by (simp add: image_image)
  also have "\<dots> = userId ` set (manyMembers 1000)"
    unfolding report_rows_fields(1)[OF g] roster_bigStore by (simp add: image_image)
  finally have "memberId ` set (reportRows rep) = userId ` set (manyMembers 1000)" .
  then have "replicate 1000 CHR ''x'' \<notin> memberId ` set (reportRows rep)"
    by (simp only: userId_manyMembers) simp
  then have d: "(case generateReportByDepartment bigStore now ''north'' ''T1'' ''admin'' of
        Inl e \<Rightarrow> False
      | Inr res \<Rightarrow> length (reportRows (snd res)) = 1000
                   \<and> replicate 1000 CHR ''x'' \<notin> memberId ` set (reportRows (snd res)))"
    using len by (simp add: g)
  show ?thesis by (intro conjI a b c c' d)
qed



section \<open>Ranks in the reports\<close>

lemma rankLoop_scores:
  "map rk_totalScore (rankLoop i cr cs rs) = map rk_totalScore rs"
  by (induction rs arbitrary: i cr cs) auto

lemma takeWhile_scores:
  "length (takeWhile (\<lambda>r. rk_totalScore r \<noteq> x) rows)
     = length (takeWhile (\<lambda>y. y \<noteq> x) (map rk_totalScore rows))"
  by (simp add: takeWhile_map comp_def)

lemma filter_scores:
  "length (filter (\<lambda>r. x < rk_totalScore r) rows)
     = length (filter (\<lambda>y. x < y) (map rk_totalScore rows))"
  by (simp add: filter_map comp_def)

lemma competitionRanked_assignRankings:
  assumes srt: "sorted_wrt (\<ge>) (map rk_totalScore rs)"
  shows "competitionRanked (assignRankings rs)"
proof -
  have sc: "map rk_totalScore (assignRankings rs) = map rk_totalScore rs"
    by (simp add: assignRankings_def rankLoop_scores)
  have len: "length (assignRankings rs) = length rs"
    by (simp add: assignRankings_def rankLoop_length)
  have row: "ranking (assignRankings rs ! k) =
        Suc (length (takeWhile (\<lambda>r'. rk_totalScore r' \<noteq> rk_totalScore (assignRankings rs ! k))
               (assignRankings rs)))
      \<and> ranking (assignRankings rs ! k) =
        Suc (length (filter (\<lambda>r'. rk_totalScore (assignRankings rs ! k) < rk_totalScore r')
               (assignRankings rs)))"
    if k: "k < length rs" for k
  proof -
    have n: "assignRankings rs ! k =
        (rs ! k)\<lparr>ranking :=
           Suc (length (takeWhile (\<lambda>r. rk_totalScore r \<noteq> rk_totalScore (rs ! k)) rs))\<rparr>"
      using srt k by (rule assignRankings_nth)
    then have x: "rk_totalScore (assignRankings rs ! k) = rk_totalScore (rs ! k)" by simp
    have "rk_totalScore (rs ! k) \<in> rk_totalScore ` set rs" using k by simp
    then have tf: "length (takeWhile (\<lambda>r. rk_totalScore r \<noteq> rk_totalScore (rs ! k)) rs) =
        length (filter (\<lambda>r. rk_totalScore (rs ! k) < rk_totalScore r) rs)"
      using srt by (rule takeWhile_filter_sorted[rotated])
    have t: "length (takeWhile (\<lambda>r'. rk_totalScore r' \<noteq> rk_totalScore (rs ! k)) (assignRankings rs))
        = length (takeWhile (\<lambda>r'. rk_totalScore r' \<noteq> rk_totalScore (rs ! k)) rs)"
      unfolding takeWhile_scores sc ..
    have f: "length (filter (\<lambda>r'. rk_totalScore (rs ! k) < rk_totalScore r') (assignRankings rs))
        = length (filter (\<lambda>r'. rk_totalScore (rs ! k) < rk_totalScore r') rs)"
      unfolding filter_scores sc ..
    have r: "ranking (assignRankings rs ! k) =
        Suc (length (takeWhile (\<lambda>r. rk_totalScore r \<noteq> rk_totalScore (rs ! k)) rs))"
      using n by simp
    show ?thesis unfolding x t f using r tf by simp
  qed
  have sorted: "sorted_wrt (\<ge>) (map rk_totalScore (assignRankings rs))"
    unfolding sc by (rule srt)
  have ranks: "list_all
           (\<lambda>r. ranking r =
                  Suc (length (takeWhile (\<lambda>r'. rk_totalScore r' \<noteq> rk_totalScore r)
                         (assignRankings rs)))
                \<and> ranking r =
                  Suc (length (filter (\<lambda>r'. rk_totalScore r < rk_totalScore r')
                         (assignRankings rs))))
           (assignRankings rs)"
    unfolding list_all_length
  proof (intro allI impI)
    fix n
    assume "n < length (assignRankings rs)"
    then have "n < length rs" by (simp only: len)
    from row[OF this]
    show "ranking (assignRankings rs ! n) =
        Suc (length (takeWhile (\<lambda>r'. rk_totalScore r' \<noteq> rk_totalScore (assignRankings rs ! n))
               (assignRankings rs)))
      \<and> ranking (assignRankings rs ! n) =
        Suc (length (filter (\<lambda>r'. rk_totalScore (assignRankings rs ! n) < rk_totalScore r')
               (assignRankings rs)))" .
  qed
  show ?thesis
    unfolding competitionRanked_def using sorted ranks by (rule conjI)
qed

lemma competitionRanked_rankMembers: "competitionRanked (rankMembers em ms)"
  unfolding rankMembers_def by (rule competitionRanked_assignRankings) (rule sorted_sortJS)

lemma statistics_rankings:
  "\<exists>em ms. fst (getKpiEntriesStatisticsByDepartmentAndRole st page limit tid department role)
      = rankMembers em ms"
  by (simp add: getKpiEntriesStatisticsByDepartmentAndRole_def Let_def) blast

lemma report_rankings:
  assumes "generateReportByDepartment st now department tid generatedBy = Inr res"
    and "rr \<in> set (roleReports (snd res))"
  shows "\<exists>em ms. rr_rankings rr = rankMembers em ms"
proof (cases "getKpiTemplate st tid")
  case None
  then show ?thesis using assms(1) by (simp add: generateReportByDepartment_def)
next
  case (Some tpl)
  from generateReport_result[OF this, of now department generatedBy] assms(1)
  have "roleReports (snd res) =
      map (roleReportOf (entriesMapOf (openEntries st department tid)))
        (membersByRoleOf (roster st department))"
    by auto
  then obtain em groups where "roleReports (snd res) = map (roleReportOf em) groups" by blast
  then obtain grp where "rr = roleReportOf em grp" using assms(2) by auto
  then have "rr_rankings rr = rankMembers em (snd grp)"
    by (simp add: roleReportOf_def Let_def)
  then show ?thesis by blast
qed

text \<open>
  C4. The rows of every ranking the service returns, those of
  \<open>getKpiEntriesStatisticsByDepartmentAndRole\<close> and those of each role report of
  \<open>generateReportByDepartment\<close>, are in descending order of total score and carry
  competition ranks: the rank of a row is the 1-based position of the first row with the
  same score, one more than the number of rows with a strictly higher score, so ties share
  a rank and the rank after a tie skips. On a list already sorted by descending score
  the ranking loop leaves every row as it is but for its rank. A team with the scores 80,
  90, 70, 90 is ranked 90, 90, 80, 70 with the ranks 1, 1, 3, 4.
\<close>

theorem C4_competition_ranking:
  "competitionRanked (rankMembers em ms)
   \<and> length (rankMembers em ms) = length ms
   \<and> competitionRanked
        (fst (getKpiEntriesStatisticsByDepartmentAndRole st page limit tid department role))
   \<and> (case generateReportByDepartment st now department tid generatedBy of
        Inl e \<Rightarrow> True
      | Inr res \<Rightarrow> list_all (\<lambda>rr. competitionRanked (rr_rankings rr)) (roleReports (snd res)))
   \<and> (sorted_wrt (\<ge>) (map rk_totalScore rs) \<and> k < length rs \<longrightarrow>
        competitionRanked (assignRankings rs)
        \<and> assignRankings rs ! k =
            (rs ! k)\<lparr>ranking :=
               Suc (length (takeWhile (\<lambda>r. rk_totalScore r \<noteq> rk_totalScore (rs ! k)) rs))\<rparr>
        \<and> ranking (assignRankings rs ! k) =
            Suc (length (filter (\<lambda>r. rk_totalScore (rs ! k) < rk_totalScore r) rs)))
   \<and> map rankSummary
        (fst (getKpiEntriesStatisticsByDepartmentAndRole exTeamStore 1 10
               ''T1'' ''north'' ''sales''))
       = [(''b'', 90, 1), (''d'', 90, 1), (''a'', 80, 3), (''c'', 70, 4)]
   \<and> map ranking (assignRankings (map scoreRow [90, 90, 80, 70])) = [1, 1, 3, 4]"
proof -
  have a: "competitionRanked (rankMembers em ms)" by (rule competitionRanked_rankMembers)
  have b: "length (rankMembers em ms) = length ms" by (rule rankMembers_length)
  have c: "competitionRanked
        (fst (getKpiEntriesStatisticsByDepartmentAndRole st page limit tid department role))"
    using statistics_rankings[of st page limit tid department role]
      competitionRanked_rankMembers by auto
  have d: "(case generateReportByDepartment st now department tid generatedBy of
        Inl e \<Rightarrow> True
      | Inr res \<Rightarrow> list_all (\<lambda>rr. competitionRanked (rr_rankings rr)) (roleReports (snd res)))"
  proof (cases "generateReportByDepartment st now department tid generatedBy")
    case (Inl e)
    then show ?thesis by simp
  next
    case (Inr res)
    have "competitionRanked (rr_rankings rr)" if "rr \<in> set (roleReports (snd res))" for rr
      using report_rankings[OF Inr that] competitionRanked_rankMembers by auto
    then show ?thesis using Inr by (simp add: list_all_iff)
  qed
  have e: "competitionRanked (assignRankings rs)
        \<and> assignRankings rs ! k =
            (rs ! k)\<lparr>ranking :=
               Suc (length (takeWhile (\<lambda>r. rk_totalScore r \<noteq> rk_totalScore (rs ! k)) rs))\<rparr>
        \<and> ranking (assignRankings rs ! k) =
            Suc (length (filter (\<lambda>r. rk_totalScore (rs ! k) < rk_totalScore r) rs))"
    if srt: "sorted_wrt (\<ge>) (map rk_totalScore rs)" and k: "k < length rs"
  proof -
    have n: "assignRankings rs ! k =
        (rs ! k)\<lparr>ranking :=
           Suc (length (takeWhile (\<lambda>r. rk_totalScore r \<noteq> rk_totalScore (rs ! k)) rs))\<rparr>"
      using srt k by (rule assignRankings_nth)
    have "rk_totalScore (rs ! k) \<in> rk_totalScore ` set rs" using k by simp
    then have "length (takeWhile (\<lambda>r. rk_totalScore r \<noteq> rk_totalScore (rs ! k)) rs) =
        length (filter (\<lambda>r. rk_totalScore (rs ! k) < rk_totalScore r) rs)"
      using srt by (rule takeWhile_filter_sorted[rotated])
    then show ?thesis using n competitionRanked_assignRankings[OF srt] by simp
  qed
  have e': "sorted_wrt (\<ge>) (map rk_totalScore rs) \<and> k < length rs \<longrightarrow>
        competitionRanked (assignRankings rs)
        \<and> assignRankings rs ! k =
            (rs ! k)\<lparr>ranking :=
               Suc (length (takeWhile (\<lambda>r. rk_totalScore r \<noteq> rk_totalScore (rs ! k)) rs))\<rparr>
        \<and> ranking (assignRankings rs ! k) =
            Suc (length (filter (\<lambda>r. rk_totalScore (rs ! k) < rk_totalScore r) rs))"
  proof
    assume h: "sorted_wrt (\<ge>) (map rk_totalScore rs) \<and> k < length rs"
    show "competitionRanked (assignRankings rs)
        \<and> assignRankings rs ! k =
            (rs ! k)\<lparr>ranking :=
               Suc (length (takeWhile (\<lambda>r. rk_totalScore r \<noteq> rk_totalScore (rs ! k)) rs))\<rparr>
        \<and> ranking (assignRankings rs ! k) =
            Suc (length (filter (\<lambda>r. rk_totalScore (rs ! k) < rk_totalScore r) rs))"
      by (rule e[OF conjunct1[OF h] conjunct2[OF h]])
  qed
  have f: "map rankSummary
        (fst (getKpiEntriesStatisticsByDepartmentAndRole exTeamStore 1 10
               ''T1'' ''north'' ''sales''))
       = [(''b'', 90, 1), (''d'', 90, 1), (''a'', 80, 3), (''c'', 70, 4)]"
    by (simp add: getKpiEntriesStatisticsByDepartmentAndRole_def getMembers_def
        exactCondition_def trim_def isWhiteSpace_def entriesMapOf_def rankMembers_def
        rankingRow_def sortJS_def byTotalScoreDesc_def assignRankings_def rankSummary_def
        exTeamStore_def exScored_def example_defs Let_def)
  have g: "map ranking (assignRankings (map scoreRow [90, 90, 80, 70])) = [1, 1, 3, 4]"
    by (simp add: assignRankings_def scoreRow_def)
  show ?thesis
    by (rule conjI[OF a], rule conjI[OF b], rule conjI[OF c], rule conjI[OF d],
        rule conjI[OF e'], rule conjI[OF f], rule g)
qed

theorem C4_competition_ranking_witness:
  "sorted_wrt (\<ge>) (map rk_totalScore (map scoreRow [90, 90, 80, 70]))
   \<and> (3::nat) < length (map scoreRow [90, 90, 80, 70])
   \<and> competitionRanked (assignRankings (map scoreRow [90, 90, 80, 70]))
   \<and> ranking (assignRankings (map scoreRow [90, 90, 80, 70]) ! 3) = 4"
proof -
  have s: "sorted_wrt (\<ge>) (map rk_totalScore (map scoreRow [90, 90, 80, 70]))"
    by (simp add: scoreRow_def)
  have k3: "(3::nat) < length (map scoreRow [90, 90, 80, 70])" by simp
  from C4_competition_ranking[of _ _ _ _ _ _ _ _ _ _ "map scoreRow [90, 90, 80, 70]" 3] s k3
  have c: "competitionRanked (assignRankings (map scoreRow [90, 90, 80, 70]))"
    and r: "ranking (assignRankings (map scoreRow [90, 90, 80, 70]) ! 3) =
      Suc (length (filter (\<lambda>r. rk_totalScore (map scoreRow [90, 90, 80, 70] ! 3) < rk_totalScore r)
         (map scoreRow [90, 90, 80, 70])))"
    by blast+
  have r3: "ranking (assignRankings (map scoreRow [90, 90, 80, 70]) ! 3) = 4"
    using r by (simp add: scoreRow_def)
  show ?thesis by (intro conjI s k3 c r3)
qed

end
